theory Spec2Isabelle
  imports Main "HOL-Library.Sublist"
begin

section \<open>Errors and outcomes\<close>

text \<open>
  Go functions of the client return an \<open>error\<close> value that is \<open>nil\<close> on success.
  The model keeps the distinctions the code branches on: a Kubernetes "not found"
  status (\<open>apiErrors.IsNotFound\<close>), any other API error, the errors built with
  \<open>fmt.Errorf\<close> (kept as their message), the deadline error of the poll loop, and
  the aggregated \<open>OperatorIncompleteError\<close>.
\<close>

datatype error =
    NotFound
  | ApiError string
  | Errorf string
  | DeadlineExceeded
  | WaitFailed "(string \<times> string) list"
  | OperatorIncompleteError "string list"

definition IsNotFound :: "error option \<Rightarrow> bool" where
  "IsNotFound e = (e = Some NotFound)"

section \<open>Readiness waiter (k8s/client.go, WaitReady and isDeploymentReady)\<close>

record ContainerStatus =
  waitingMessage :: "string option"

record Pod =
  podName :: string
  podPhase :: string
  containerStatuses :: "ContainerStatus list"

definition PodRunning :: string where
  "PodRunning = ''Running''"

text \<open>
  What one poll sees of the cluster: the answer to \<open>Deployments(namespace).Get\<close>
  (the deployment's label selector, or an error) and the answer to
  \<open>Pods(namespace).List\<close> with that selector.
\<close>

record PollView =
  getDeployment :: "error + string"
  listPods :: "error + Pod list"

text \<open>
  The loop of \<open>isDeploymentReady\<close>: \<open>running\<close> starts as \<open>false\<close>, is overwritten by
  every pod visited, and the loop breaks at the first pod that is not running.
\<close>

fun podsLoop :: "Pod list \<Rightarrow> bool \<Rightarrow> bool" where
  "podsLoop [] running = running"
| "podsLoop (pod # pods) running =
     (let running' = (podPhase pod = PodRunning)
      in if \<not> running' then running' else podsLoop pods running')"

definition isDeploymentReady :: "PollView \<Rightarrow> bool \<times> error option" where
  "isDeploymentReady v =
     (case getDeployment v of
        Inl e \<Rightarrow> (False, Some e)
      | Inr sel \<Rightarrow>
          (case listPods v of
             Inl e \<Rightarrow> (False, Some e)
           | Inr pods \<Rightarrow> (podsLoop pods False, None)))"

text \<open>
  \<open>wait.PollUntilContextTimeout\<close> with \<open>immediate = true\<close>: the condition runs once at
  once and then once per tick until the deadline; it stops with the condition's
  error, with \<open>nil\<close> when the condition reports done, and with the context's error
  when the deadline passes first. The ticks that fit before the deadline are the
  list of later views, so the loop is bounded by its length.
\<close>

fun pollLoop :: "PollView list \<Rightarrow> error option" where
  "pollLoop [] = Some DeadlineExceeded"
| "pollLoop (v # vs) =
     (case isDeploymentReady v of
        (ok, Some e) \<Rightarrow> Some e
      | (ok, None) \<Rightarrow> if ok then None else pollLoop vs)"

definition PollUntilContextTimeout :: "PollView \<Rightarrow> PollView list \<Rightarrow> error option" where
  "PollUntilContextTimeout first later = pollLoop (first # later)"

text \<open>
  The verbose branch of \<open>WaitReady\<close>: the waiting messages of each pod, joined by
  a newline, for the pods that have one.
\<close>

fun joinWith :: "string \<Rightarrow> string list \<Rightarrow> string" where
  "joinWith sep [] = []"
| "joinWith sep [x] = x"
| "joinWith sep (x # y # ys) = x @ sep @ joinWith sep (y # ys)"

fun waitingMessages :: "ContainerStatus list \<Rightarrow> string list" where
  "waitingMessages [] = []"
| "waitingMessages (s # ss) =
     (case waitingMessage s of
        Some m \<Rightarrow> m # waitingMessages ss
      | None \<Rightarrow> waitingMessages ss)"

fun podMessages :: "Pod list \<Rightarrow> (string \<times> string) list" where
  "podMessages [] = []"
| "podMessages (pod # pods) =
     (let containerStatus = waitingMessages (containerStatuses pod)
      in if containerStatus \<noteq> []
         then (podName pod, joinWith [CHR 0x0A] containerStatus) # podMessages pods
         else podMessages pods)"

definition WaitReady :: "bool \<Rightarrow> PollView \<Rightarrow> PollView list \<Rightarrow> PollView \<Rightarrow> error option" where
  "WaitReady verbose first later diag =
     (case PollUntilContextTimeout first later of
        None \<Rightarrow> None
      | Some err \<Rightarrow>
          if verbose then
            (case getDeployment diag of
               Inl e \<Rightarrow> Some e
             | Inr sel \<Rightarrow>
                 (case listPods diag of
                    Inl e \<Rightarrow> Some e
                  | Inr pods \<Rightarrow>
                      if podMessages pods \<noteq> [] then Some (WaitFailed (podMessages pods))
                      else Some err))
          else Some err)"

section \<open>Go string functions used by the manifest preparer\<close>

text \<open>
  A Go string is modelled as the list of its characters, every character standing
  for one rune (the manifest and the flag values are ASCII text).
\<close>

definition HasPrefix :: "string \<Rightarrow> string \<Rightarrow> bool" where
  "HasPrefix s p = prefix p s"

text \<open>\<open>strings.Contains\<close>: some suffix of \<open>s\<close> starts with \<open>sub\<close>.\<close>

fun Contains :: "string \<Rightarrow> string \<Rightarrow> bool" where
  "Contains [] sub = (sub = [])"
| "Contains (c # cs) sub = (prefix sub (c # cs) \<or> Contains cs sub)"

text \<open>
  \<open>strings.ReplaceAll\<close>: the non-overlapping instances of \<open>old\<close>, found from left to
  right, are replaced by \<open>new\<close>. For an empty \<open>old\<close> Go inserts \<open>new\<close> before every
  rune and at the end.
\<close>

fun replaceLoop :: "string \<Rightarrow> string \<Rightarrow> string \<Rightarrow> string" where
  "replaceLoop old new [] = []"
| "replaceLoop old new (c # cs) =
     (if prefix old (c # cs)
      then new @ replaceLoop old new (drop (length old - 1) cs)
      else c # replaceLoop old new cs)"

definition ReplaceAll :: "string \<Rightarrow> string \<Rightarrow> string \<Rightarrow> string" where
  "ReplaceAll s old new =
     (if old = [] then new @ concat (map (\<lambda>c. c # new) s)
      else replaceLoop old new s)"

text \<open>
  \<open>strings.Split\<close> with a non-empty separator: the pieces between the
  non-overlapping instances of \<open>sep\<close>, found from left to right; always at least
  one piece. (With an empty separator Go splits after every rune.)
\<close>

fun splitLoop :: "string \<Rightarrow> string \<Rightarrow> string \<Rightarrow> string list" where
  "splitLoop sep piece [] = [piece]"
| "splitLoop sep piece (c # cs) =
     (if prefix sep (c # cs)
      then piece # splitLoop sep [] (drop (length sep - 1) cs)
      else splitLoop sep (piece @ [c]) cs)"

definition Split :: "string \<Rightarrow> string \<Rightarrow> string list" where
  "Split s sep = (if sep = [] then map (\<lambda>c. [c]) s else splitLoop sep [] s)"

definition Join :: "string list \<Rightarrow> string \<Rightarrow> string" where
  "Join elems sep = joinWith sep elems"

text \<open>
  \<open>strconv.Atoi\<close> on a 64-bit platform: an optional sign, then one or more decimal
  digits, and the value must fit \<open>int\<close>. Only success or failure matters to
  the callers, which test \<open>err == nil\<close>.
\<close>

definition isDigit :: "char \<Rightarrow> bool" where
  "isDigit c = (48 \<le> (of_char c :: int) \<and> (of_char c :: int) \<le> 57)"

fun digitsValue :: "int \<Rightarrow> string \<Rightarrow> int" where
  "digitsValue n [] = n"
| "digitsValue n (c # cs) = digitsValue (n * 10 + (of_char c - 48)) cs"

definition Atoi :: "string \<Rightarrow> int option" where
  "Atoi s =
     (let neg = (s \<noteq> [] \<and> hd s = CHR ''-'');
          signed = (s \<noteq> [] \<and> (hd s = CHR ''-'' \<or> hd s = CHR ''+''));
          ds = (if signed then tl s else s);
          n = digitsValue 0 ds
      in if ds = [] \<or> \<not> list_all isDigit ds then None
         else if neg then (if n > 9223372036854775808 then None else Some (- n))
         else (if n \<ge> 9223372036854775808 then None else Some n))"

section \<open>The image pattern of addImage\<close>

text \<open>
  The pattern is \<^verbatim>\<open>image:\s*ghcr.io/calyptia/core-operator:[^\n\r]*\<close>. In Go's
  syntax \<^verbatim>\<open>\s\<close> is a tab, newline, form feed, carriage return or space, the
  unescaped dot is any character but the newline, and the stars are greedy. After
  \<^verbatim>\<open>\s*\<close> the pattern needs a \<open>g\<close>, which is no white space, and the last
  star ends the pattern, so the leftmost-first match at a position is the one that
  takes all the white space and then all of the line.
\<close>

definition isSpace :: "char \<Rightarrow> bool" where
  "isSpace c = (c = CHR 0x09 \<or> c = CHR 0x0A \<or> c = CHR 0x0C \<or> c = CHR 0x0D \<or> c = CHR '' '')"

definition notEol :: "char \<Rightarrow> bool" where
  "notEol c = (c \<noteq> CHR 0x0A \<and> c \<noteq> CHR 0x0D)"

definition stripPrefix :: "string \<Rightarrow> string \<Rightarrow> string option" where
  "stripPrefix p s = (if prefix p s then Some (drop (length p) s) else None)"

text \<open>
  The match of the pattern at the start of \<open>s\<close>: \<open>None\<close> when there is none,
  and otherwise what is left of \<open>s\<close> behind the match.
\<close>

definition matchImage :: "string \<Rightarrow> string option" where
  "matchImage s =
     (case stripPrefix ''image:'' s of
        None \<Rightarrow> None
      | Some s1 \<Rightarrow>
          (case stripPrefix ''ghcr'' (dropWhile isSpace s1) of
             None \<Rightarrow> None
           | Some s2 \<Rightarrow>
               (case s2 of
                  [] \<Rightarrow> None
                | c # s3 \<Rightarrow>
                    if c = CHR 0x0A then None
                    else (case stripPrefix ''io/calyptia/core-operator:'' s3 of
                            None \<Rightarrow> None
                          | Some s4 \<Rightarrow> Some (dropWhile notEol s4)))))"

lemma length_stripPrefix: "stripPrefix p s = Some r \<Longrightarrow> length r = length s - length p"
  by (auto simp: stripPrefix_def split: if_splits)

lemma length_matchImage: "matchImage s = Some r \<Longrightarrow> length r < length s"
proof -
  assume m: "matchImage s = Some r"
  then obtain s1 where s1: "stripPrefix ''image:'' s = Some s1"
    by (auto simp: matchImage_def split: option.splits)
  then have "length s1 < length s"
    by (auto simp: stripPrefix_def prefix_def split: if_splits)
  moreover from m s1 obtain s2 where s2: "stripPrefix ''ghcr'' (dropWhile isSpace s1) = Some s2"
    by (auto simp: matchImage_def split: option.splits)
  then have "length s2 \<le> length s1"
    using length_dropWhile_le [of isSpace s1] by (auto dest!: length_stripPrefix)
  moreover from m s1 s2 obtain c s3 s4 where "s2 = c # s3"
    "stripPrefix ''io/calyptia/core-operator:'' s3 = Some s4" "r = dropWhile notEol s4"
    by (auto simp: matchImage_def split: option.splits list.splits if_splits)
  then have "length r \<le> length s2"
    using length_dropWhile_le [of notEol s4] by (auto dest!: length_stripPrefix)
  ultimately show ?thesis by simp
qed

text \<open>
  \<open>FindString\<close>: the text of the leftmost match, or the empty string when the
  pattern matches nowhere.
\<close>

fun FindString :: "string \<Rightarrow> string" where
  "FindString [] = []"
| "FindString (c # cs) =
     (case matchImage (c # cs) of
        Some r \<Rightarrow> take (length (c # cs) - length r) (c # cs)
      | None \<Rightarrow> FindString cs)"

text \<open>
  The template expansion of \<open>Regexp.Expand\<close>, for a pattern without capture
  groups: \<^verbatim>\<open>$$\<close> is a dollar, \<^verbatim>\<open>$name\<close> and \<^verbatim>\<open>${name}\<close> are references
  (the name is the longest run of letters, digits and underscores), a reference to
  group 0 is the whole match and every other reference is empty; a dollar that
  starts no reference stays as it is.
\<close>

definition isLetter :: "char \<Rightarrow> bool" where
  "isLetter c =
     (let n = (of_char c :: int)
      in (65 \<le> n \<and> n \<le> 90) \<or> (97 \<le> n \<and> n \<le> 122) \<or> n = 170 \<or> n = 181 \<or> n = 186 \<or>
         (192 \<le> n \<and> n \<le> 214) \<or> (216 \<le> n \<and> n \<le> 246) \<or> 248 \<le> n)"

definition isNameChar :: "char \<Rightarrow> bool" where
  "isNameChar c = (isLetter c \<or> isDigit c \<or> c = CHR ''_'')"

text \<open>
  The number a name stands for: its decimal value, or \<open>-1\<close> when it has a
  character that is no digit, is too long, or has a leading zero.
\<close>

fun nameNumber :: "int \<Rightarrow> string \<Rightarrow> int" where
  "nameNumber num [] = num"
| "nameNumber num (c # cs) =
     (if \<not> isDigit c \<or> num \<ge> 100000000 then - 1
      else nameNumber (num * 10 + (of_char c - 48)) cs)"

definition extractRef :: "string \<Rightarrow> (string \<times> int \<times> string) option" where
  "extractRef str =
     (if str = [] then None
      else
        let brace = (hd str = CHR ''{'');
            str1 = (if brace then tl str else str);
            name = takeWhile isNameChar str1;
            after = dropWhile isNameChar str1
        in if name = [] then None
           else if brace \<and> (after = [] \<or> hd after \<noteq> CHR ''}'') then None
           else
             let num = (if hd name = CHR ''0'' \<and> length name > 1 then - 1
                        else nameNumber 0 name)
             in Some (name, num, if brace then tl after else after))"

lemma length_extractRef: "extractRef str = Some (name, num, rest) \<Longrightarrow> length rest \<le> length str"
proof -
  assume e: "extractRef str = Some (name, num, rest)"
  define str1 where "str1 = (if hd str = CHR ''{'' then tl str else str)"
  have "length (dropWhile isNameChar str1) \<le> length str1"
    by (rule length_dropWhile_le)
  moreover have "length str1 \<le> length str"
    by (simp add: str1_def)
  moreover from e have "rest = dropWhile isNameChar str1 \<or> rest = tl (dropWhile isNameChar str1)"
    by (auto simp: extractRef_def Let_def str1_def split: if_splits)
  ultimately show ?thesis by auto
qed

function expand :: "string \<Rightarrow> string \<Rightarrow> string" where
  "expand [] m = []"
| "expand (c # cs) m =
     (if c \<noteq> CHR ''$'' then c # expand cs m
      else if cs \<noteq> [] \<and> hd cs = CHR ''$'' then CHR ''$'' # expand (tl cs) m
      else (case extractRef cs of
              None \<Rightarrow> CHR ''$'' # expand cs m
            | Some (name, num, rest) \<Rightarrow> (if num = 0 then m else []) @ expand rest m))"
  by pat_completeness auto
termination
  by (relation "measure (\<lambda>(t, m). length t)") (auto dest: length_extractRef)

text \<open>
  \<open>ReplaceAllString\<close>: every match, found from left to right behind the one
  before, is replaced by the expansion of the template; the match is never empty.
\<close>

function ReplaceAllString :: "string \<Rightarrow> string \<Rightarrow> string" where
  "ReplaceAllString [] repl = []"
| "ReplaceAllString (c # cs) repl =
     (case matchImage (c # cs) of
        Some r \<Rightarrow>
          expand repl (take (length (c # cs) - length r) (c # cs)) @ ReplaceAllString r repl
      | None \<Rightarrow> c # ReplaceAllString cs repl)"
  by pat_completeness auto
termination
  by (relation "measure (\<lambda>(s, repl). length s)") (auto dest: length_matchImage)

section \<open>Manifest preparer (cmd/operator/install.go)\<close>

text \<open>
  \<open>fmt.Sprintf\<close> with the format \<^verbatim>\<open>"%s"\<close> in double quotes: the namespace between
  two double quote characters. Both \<open>solveNamespaceCreation\<close> and \<open>injectNamespace\<close>
  quote a namespace that \<open>strconv.Atoi\<close> accepts.
\<close>

definition quoteIfInteger :: "string \<Rightarrow> string" where
  "quoteIfInteger namespace =
     (if Atoi namespace \<noteq> None then [CHR 0x22] @ namespace @ [CHR 0x22] else namespace)"

text \<open>The document separator of the manifest: three dashes and a newline.\<close>

definition documentSeparator :: string where
  "documentSeparator = [CHR ''-'', CHR ''-'', CHR ''-'', CHR 0x0A]"

definition solveNamespaceCreation :: "bool \<Rightarrow> string \<Rightarrow> string \<Rightarrow> string" where
  "solveNamespaceCreation createNamespace fullFile namespace =
     (if \<not> createNamespace
      then Join (tl (Split fullFile documentSeparator)) documentSeparator
      else ReplaceAll fullFile ''name: calyptia-core'' (''name: '' @ quoteIfInteger namespace))"

definition addImage :: "string \<Rightarrow> string \<Rightarrow> string \<Rightarrow> error + string" where
  "addImage coreDockerImage coreInstanceVersion file =
     (if coreInstanceVersion \<noteq> []
      then
        (let match = FindString file
         in if match = [] then Inl (Errorf ''could not find image in manifest'')
            else
              let updatedMatch = ''image: '' @ coreDockerImage @ '':'' @ coreInstanceVersion
              in Inr (ReplaceAllString file updatedMatch))
      else Inr file)"

definition injectNamespace :: "string \<Rightarrow> string \<Rightarrow> string" where
  "injectNamespace s namespace =
     ReplaceAll s ''namespace: calyptia-core'' (''namespace: '' @ quoteIfInteger namespace)"

text \<open>
  \<open>prepareInstallManifest\<close> reads the embedded manifest, prepares its text and
  writes it to a new temporary file. The file system's answers are inputs of the
  model: the embedded file (or the error of reading it), the outcome of
  \<open>os.MkdirTemp\<close>, of \<open>os.CreateTemp\<close> (the file's name) and of \<open>WriteString\<close>.
  The result is the file's name together with the text written to it.
\<close>

record FileSystem =
  readManifest :: "error + string"
  mkdirTemp :: "error + string"
  createTemp :: "error + string"
  writeString :: "error option"

definition prepareInstallManifest ::
  "FileSystem \<Rightarrow> string \<Rightarrow> string \<Rightarrow> string \<Rightarrow> bool \<Rightarrow> error + (string \<times> string)" where
  "prepareInstallManifest fs coreDockerImage coreInstanceVersion namespace createNamespace =
     (case readManifest fs of
        Inl err \<Rightarrow> Inl err
      | Inr fullFile \<Rightarrow>
          (let solveNamespace = solveNamespaceCreation createNamespace fullFile namespace;
               withNamespace = injectNamespace solveNamespace namespace
           in case addImage coreDockerImage coreInstanceVersion withNamespace of
                Inl err \<Rightarrow> Inl err
              | Inr withImage \<Rightarrow>
                  (case mkdirTemp fs of
                     Inl err \<Rightarrow> Inl err
                   | Inr dir \<Rightarrow>
                       (case createTemp fs of
                          Inl err \<Rightarrow> Inl err
                        | Inr temp \<Rightarrow>
                            (case writeString fs of
                               Some err \<Rightarrow> Inl err
                             | None \<Rightarrow> Inr (temp, withImage))))))"

text \<open>
  A token does not straddle into the text \<open>x\<close> when no proper, non-empty end of
  the token starts \<open>x\<close>: an instance of the token that begins before \<open>x\<close> then
  ends before it.
\<close>

definition noStraddle :: "string \<Rightarrow> string \<Rightarrow> bool" where
  "noStraddle tok x = (\<forall>u w. u \<noteq> [] \<and> w \<noteq> [] \<and> tok = u @ w \<longrightarrow> \<not> prefix w x)"

section \<open>The image references of a manifest\<close>

text \<open>
  The texts the image pattern describes: \<open>image:\<close>, any white space, \<open>ghcr\<close>,
  one character that is no newline, \<open>io/calyptia/core-operator:\<close>, and a tag that
  stays on the line.
\<close>

definition isImageRef :: "string \<Rightarrow> bool" where
  "isImageRef m =
     (\<exists>ws c tag. m = ''image:'' @ ws @ ''ghcr'' @ [c] @ ''io/calyptia/core-operator:'' @ tag
        \<and> list_all isSpace ws \<and> c \<noteq> CHR 0x0A \<and> list_all notEol tag)"

text \<open>
  The head of an image reference: all of it before the tag.
\<close>

definition referenceHead :: "string \<Rightarrow> bool" where
  "referenceHead h =
     (\<exists>ws c. h = ''image:'' @ ws @ ''ghcr'' @ [c] @ ''io/calyptia/core-operator:''
        \<and> list_all isSpace ws \<and> c \<noteq> CHR 0x0A)"

text \<open>An image reference starts the text; one occurs in it.\<close>

definition startsImageRef :: "string \<Rightarrow> bool" where
  "startsImageRef s = (\<exists>m r. s = m @ r \<and> isImageRef m)"

definition occursImageRef :: "string \<Rightarrow> bool" where
  "occursImageRef s = (\<exists>pre rest. s = pre @ rest \<and> startsImageRef rest)"

text \<open>
  The text \<open>out\<close> is \<open>s\<close> with its image references rewritten to \<open>new\<close>: reading
  from the left, a character that starts no image reference is kept, and where one
  starts, the reference that runs to the end of its line is replaced by \<open>new\<close>.
  A kept character starts no image reference in the result either, so every image
  reference of the result starts in a replacement.
\<close>

inductive rewritten :: "string \<Rightarrow> string \<Rightarrow> string \<Rightarrow> bool" for new :: string where
  rewritten_Nil: "rewritten new [] []"
| rewritten_keep:
    "\<not> startsImageRef (c # cs) \<Longrightarrow> rewritten new cs out \<Longrightarrow> \<not> startsImageRef (c # out)
     \<Longrightarrow> rewritten new (c # cs) (c # out)"
| rewritten_replace:
    "isImageRef m \<Longrightarrow> r = [] \<or> \<not> notEol (hd r) \<Longrightarrow> rewritten new r out
     \<Longrightarrow> rewritten new (m @ r) (new @ out)"

section \<open>Cluster objects and the cluster API (k8s/client.go)\<close>

text \<open>
  The fields of the Kubernetes objects that the client reads or writes. Label
  maps are association lists.
\<close>

record EnvVar =
  envName :: string
  envValue :: string
  envFieldPath :: "string option"

record Container =
  containerName :: string
  containerImage :: string
  containerImagePullPolicy :: string
  containerArgs :: "string list"
  containerEnv :: "EnvVar list"

record TypeMeta =
  kind :: string
  apiVersion :: string

record ObjectMeta =
  metaName :: string
  metaNamespace :: string
  metaLabels :: "(string \<times> string) list"

record Secret =
  secretTypeMeta :: TypeMeta
  secretObjectMeta :: ObjectMeta
  secretData :: "(string \<times> string) list"

record PolicyRule =
  ruleAPIGroups :: "string list"
  ruleResources :: "string list"
  ruleVerbs :: "string list"

record ClusterRole =
  roleTypeMeta :: TypeMeta
  roleObjectMeta :: ObjectMeta
  roleRules :: "PolicyRule list"

record ServiceAccount =
  accountTypeMeta :: TypeMeta
  accountObjectMeta :: ObjectMeta

record RoleRef =
  refAPIGroup :: string
  refKind :: string
  refName :: string

record Subject =
  subjectKind :: string
  subjectNamespace :: string
  subjectName :: string

record ClusterRoleBinding =
  bindingTypeMeta :: TypeMeta
  bindingObjectMeta :: ObjectMeta
  bindingRoleRef :: RoleRef
  bindingSubjects :: "Subject list"

record Deployment =
  deploymentTypeMeta :: TypeMeta
  deploymentObjectMeta :: ObjectMeta
  deploymentReplicas :: int
  deploymentSelector :: "(string \<times> string) list"
  templateLabels :: "(string \<times> string) list"
  templateServiceAccountName :: string
  templateAutomountServiceAccountToken :: "bool option"
  templateContainers :: "Container list"

text \<open>The fields of \<open>cloud.CreatedCoreInstance\<close> that the client uses.\<close>

record CreatedCoreInstance =
  instanceName :: string
  instanceEnvironmentName :: string
  instancePrivateRSAKey :: string

record Client =
  clientNamespace :: string
  clientProjectToken :: string
  clientCloudBaseURL :: string
  clientLabels :: "(string \<times> string) list"

datatype ResourceKind =
    Deployments | DaemonSets | ClusterRoles | ClusterRoleBindings | ServiceAccounts
  | Secrets | ConfigMaps | Services

text \<open>
  Every request the client sends to the cluster, in the order sent. The requests
  that change the cluster are the creations, updates, patches and deletions.
\<close>

datatype Call =
    CreateSecretCall string Secret
  | CreateClusterRoleCall ClusterRole
  | CreateServiceAccountCall string ServiceAccount
  | CreateClusterRoleBindingCall ClusterRoleBinding
  | CreateDeploymentCall string Deployment
  | DeleteCollectionCall ResourceKind string string
  | DeleteCall ResourceKind string string
  | UpdateDeploymentCall string Deployment
  | PatchDeploymentCall string string string
  | ListDeploymentsCall string string
  | ListNamespacesCall
  | GetDeploymentCall string string
  | WaitReadyCall string string

fun isMutation :: "Call \<Rightarrow> bool" where
  "isMutation (ListDeploymentsCall ns label) = False"
| "isMutation ListNamespacesCall = False"
| "isMutation (GetDeploymentCall ns name) = False"
| "isMutation (WaitReadyCall ns name) = False"
| "isMutation c = True"

text \<open>
  The cluster's answers are inputs of the model: for each request, the answer the
  API server gives to it. A namespaced request names its namespace first; a
  cluster-scoped one (cluster roles and their bindings) has the empty namespace.
  The readiness polls of a deployment are the views of \<open>WaitReady\<close>, and the clock
  is the formatted time that \<open>rolloutDeployment\<close> reads.
\<close>

record Api =
  createSecret :: "string \<Rightarrow> Secret \<Rightarrow> error + Secret"
  createClusterRole :: "ClusterRole \<Rightarrow> error + ClusterRole"
  createServiceAccount :: "string \<Rightarrow> ServiceAccount \<Rightarrow> error + ServiceAccount"
  createClusterRoleBinding :: "ClusterRoleBinding \<Rightarrow> error + ClusterRoleBinding"
  createDeployment :: "string \<Rightarrow> Deployment \<Rightarrow> error + Deployment"
  deleteCollection :: "ResourceKind \<Rightarrow> string \<Rightarrow> string \<Rightarrow> error option"
  deleteObject :: "ResourceKind \<Rightarrow> string \<Rightarrow> string \<Rightarrow> error option"
  listDeployments :: "string \<Rightarrow> string \<Rightarrow> error + Deployment list"
  updateDeployment :: "string \<Rightarrow> Deployment \<Rightarrow> error option"
  patchDeployment :: "string \<Rightarrow> string \<Rightarrow> string \<Rightarrow> error option"
  listNamespaces :: "error + string list"
  getDeploymentByName :: "string \<Rightarrow> string \<Rightarrow> error + Deployment"
  getAfterDelete :: "string \<Rightarrow> string \<Rightarrow> error option list"
  pollFirst :: "string \<Rightarrow> string \<Rightarrow> PollView"
  pollLater :: "string \<Rightarrow> string \<Rightarrow> PollView list"
  pollDiag :: "string \<Rightarrow> string \<Rightarrow> PollView"
  timeNow :: string

text \<open>
  A Go function either returns or panics (an index out of range, a nil
  dereference, an explicit \<open>panic\<close>).
\<close>

datatype 'a outcome = Panic | Return 'a

section \<open>Resource names\<close>

definition defaultObjectMetaNamePrefix :: string where
  "defaultObjectMetaNamePrefix = ''calyptia''"

definition defaultResourceNamePrefix :: string where
  "defaultResourceNamePrefix = ''calyptia''"

definition coreTLSVerifyEnvVar :: string where
  "coreTLSVerifyEnvVar = ''CORE_TLS_VERIFY''"

definition syncTLSVerifyEnvVar :: string where
  "syncTLSVerifyEnvVar = ''NO_TLS_VERIFY''"

definition coreSkipServiceCreationEnvVar :: string where
  "coreSkipServiceCreationEnvVar = ''CORE_INSTANCE_SKIP_SERVICE_CREATION''"

definition operatorDeploymentName :: string where
  "operatorDeploymentName = ''calyptia-core-controller-manager''"

definition deploymentReplicas :: int where
  "deploymentReplicas = 1"

definition automountServiceAccountToken :: bool where
  "automountServiceAccountToken = True"

definition getObjectMeta :: "Client \<Rightarrow> CreatedCoreInstance \<Rightarrow> string \<Rightarrow> ObjectMeta" where
  "getObjectMeta client agg objectType =
     (let name = instanceName agg @ ''-'' @ instanceEnvironmentName agg @ ''-'' @ objectType;
          name' = (if \<not> HasPrefix name defaultObjectMetaNamePrefix
                   then defaultObjectMetaNamePrefix @ ''-'' @ name else name)
      in \<lparr>metaName = name', metaNamespace = [], metaLabels = clientLabels client\<rparr>)"

definition FormatResourceName :: "string list \<Rightarrow> string" where
  "FormatResourceName parts =
     (let str = Join parts ''-''
      in if \<not> HasPrefix str defaultResourceNamePrefix
         then defaultResourceNamePrefix @ ''-'' @ str else str)"

definition FormatBool :: "bool \<Rightarrow> string" where
  "FormatBool b = (if b then ''true'' else ''false'')"

section \<open>Resource orchestrator: creation\<close>

text \<open>
  Each creation builds the request object, and then either returns it (dry run) or
  sends it. The result is the returned pair of Go, object or error, together
  with the requests sent.
\<close>

definition CreateSecret ::
  "Api \<Rightarrow> Client \<Rightarrow> CreatedCoreInstance \<Rightarrow> bool \<Rightarrow> (error + Secret) \<times> Call list" where
  "CreateSecret api client agg dryRun =
     (let metadata = getObjectMeta client agg ''secret'';
          req = \<lparr>secretTypeMeta = \<lparr>kind = ''Secret'', apiVersion = ''v1''\<rparr>,
                 secretObjectMeta = metadata,
                 secretData = [(metaName metadata, instancePrivateRSAKey agg)]\<rparr>
      in if dryRun then (Inr req, [])
         else (createSecret api (clientNamespace client) req,
               [CreateSecretCall (clientNamespace client) req]))"

definition CreateSecretOperatorRSAKey ::
  "Api \<Rightarrow> Client \<Rightarrow> CreatedCoreInstance \<Rightarrow> bool \<Rightarrow> (error + Secret) \<times> Call list" where
  "CreateSecretOperatorRSAKey api client agg dryRun =
     (let metadata = getObjectMeta client agg ''secret'';
          req = \<lparr>secretTypeMeta = \<lparr>kind = ''Secret'', apiVersion = ''v1''\<rparr>,
                 secretObjectMeta = metadata,
                 secretData = [(''private-key'', instancePrivateRSAKey agg)]\<rparr>
      in if dryRun then (Inr req, [])
         else (createSecret api (clientNamespace client) req,
               [CreateSecretCall (clientNamespace client) req]))"

record ClusterRoleOpt =
  EnableOpenShift :: bool

definition CreateClusterRole ::
  "Api \<Rightarrow> Client \<Rightarrow> CreatedCoreInstance \<Rightarrow> bool \<Rightarrow> ClusterRoleOpt list
     \<Rightarrow> (error + ClusterRole) \<times> Call list" where
  "CreateClusterRole api client agg dryRun opts =
     (let apiGroups = ['''', ''apps'', ''batch'', ''policy'', ''core.calyptia.com''];
          resources = [''namespaces'', ''deployments'', ''daemonsets'', ''replicasets'',
            ''pods'', ''services'', ''configmaps'', ''deployments/scale'', ''secrets'',
            ''nodes/proxy'', ''nodes'', ''jobs'', ''podsecuritypolicies'', ''ingestchecks'',
            ''ingestchecks/finalizers'', ''ingestchecks/status'', ''pipelines'',
            ''pipelines/finalizers'', ''pipelines/status''];
          enableOpenShift = (opts \<noteq> [] \<and> EnableOpenShift (hd opts));
          apiGroups' = (if enableOpenShift then apiGroups @ [''security.openshift.io'']
                        else apiGroups);
          resources' = (if enableOpenShift then resources @ [''securitycontextconstraints'']
                        else resources);
          req = \<lparr>roleTypeMeta =
                   \<lparr>kind = ''ClusterRole'', apiVersion = ''rbac.authorization.k8s.io/v1''\<rparr>,
                 roleObjectMeta = getObjectMeta client agg ''cluster-role'',
                 roleRules = [\<lparr>ruleAPIGroups = apiGroups', ruleResources = resources',
                   ruleVerbs = [''get'', ''list'', ''create'', ''delete'', ''patch'', ''update'',
                     ''watch'', ''deletecollection'', ''use'']\<rparr>]\<rparr>
      in if dryRun then (Inr req, [])
         else (createClusterRole api req, [CreateClusterRoleCall req]))"

definition CreateServiceAccount ::
  "Api \<Rightarrow> Client \<Rightarrow> CreatedCoreInstance \<Rightarrow> bool \<Rightarrow> (error + ServiceAccount) \<times> Call list" where
  "CreateServiceAccount api client agg dryRun =
     (let req = \<lparr>accountTypeMeta = \<lparr>kind = ''ServiceAccount'', apiVersion = ''v1''\<rparr>,
                 accountObjectMeta = getObjectMeta client agg ''service-account''\<rparr>
      in if dryRun then (Inr req, [])
         else (createServiceAccount api (clientNamespace client) req,
               [CreateServiceAccountCall (clientNamespace client) req]))"

definition CreateClusterRoleBinding ::
  "Api \<Rightarrow> Client \<Rightarrow> CreatedCoreInstance \<Rightarrow> ClusterRole \<Rightarrow> ServiceAccount \<Rightarrow> bool
     \<Rightarrow> (error + ClusterRoleBinding) \<times> Call list" where
  "CreateClusterRoleBinding api client agg clusterRole serviceAccount dryRun =
     (let req = \<lparr>bindingTypeMeta =
                   \<lparr>kind = ''ClusterRoleBinding'',
                    apiVersion = ''rbac.authorization.k8s.io/v1''\<rparr>,
                 bindingObjectMeta = getObjectMeta client agg ''cluster-role-binding'',
                 bindingRoleRef =
                   \<lparr>refAPIGroup = ''rbac.authorization.k8s.io'', refKind = ''ClusterRole'',
                    refName = metaName (roleObjectMeta clusterRole)\<rparr>,
                 bindingSubjects =
                   [\<lparr>subjectKind = ''ServiceAccount'',
                     subjectNamespace = clientNamespace client,
                     subjectName = metaName (accountObjectMeta serviceAccount)\<rparr>]\<rparr>
      in if dryRun then (Inr req, [])
         else (createClusterRoleBinding api req, [CreateClusterRoleBindingCall req]))"

definition CreateDeployment ::
  "Api \<Rightarrow> Client \<Rightarrow> string \<Rightarrow> CreatedCoreInstance \<Rightarrow> string \<Rightarrow> ServiceAccount \<Rightarrow> bool
     \<Rightarrow> bool \<Rightarrow> bool \<Rightarrow> (error + Deployment) \<times> Call list" where
  "CreateDeployment api client imageRef agg coreCloudURL serviceAccount tlsVerify
       skipServiceCreation dryRun =
     (let labels = clientLabels client;
          req = \<lparr>deploymentTypeMeta = \<lparr>kind = ''Deployment'', apiVersion = ''apps/v1''\<rparr>,
                 deploymentObjectMeta = getObjectMeta client agg ''deployment'',
                 deploymentReplicas = deploymentReplicas,
                 deploymentSelector = labels,
                 templateLabels = labels,
                 templateServiceAccountName = metaName (accountObjectMeta serviceAccount),
                 templateAutomountServiceAccountToken = Some automountServiceAccountToken,
                 templateContainers =
                   [\<lparr>containerName = instanceName agg,
                     containerImage = imageRef,
                     containerImagePullPolicy = ''Always'',
                     containerArgs = [''-debug=true''],
                     containerEnv =
                       [\<lparr>envName = ''AGGREGATOR_NAME'', envValue = instanceName agg,
                          envFieldPath = None\<rparr>,
                        \<lparr>envName = ''PROJECT_TOKEN'', envValue = clientProjectToken client,
                          envFieldPath = None\<rparr>,
                        \<lparr>envName = ''AGGREGATOR_FLUENTBIT_CLOUD_URL'', envValue = coreCloudURL,
                          envFieldPath = None\<rparr>,
                        \<lparr>envName = coreTLSVerifyEnvVar, envValue = FormatBool tlsVerify,
                          envFieldPath = None\<rparr>,
                        \<lparr>envName = coreSkipServiceCreationEnvVar,
                          envValue = FormatBool skipServiceCreation, envFieldPath = None\<rparr>,
                        \<lparr>envName = ''POD_NAMESPACE'', envValue = clientNamespace client,
                          envFieldPath = None\<rparr>,
                        \<lparr>envName = ''DEPLOYMENT_NAME'', envValue = [],
                          envFieldPath = Some ''metadata.name''\<rparr>]\<rparr>]\<rparr>
      in if dryRun then (Inr req, [])
         else (createDeployment api (clientNamespace client) req,
               [CreateDeploymentCall (clientNamespace client) req]))"

section \<open>Resource orchestrator: deletion\<close>

text \<open>
  A delete by label sends one \<open>DeleteCollection\<close> and turns a "not found" answer
  into \<open>nil\<close>; every other answer is returned as it is.
\<close>

definition deleteByLabel :: "Api \<Rightarrow> ResourceKind \<Rightarrow> string \<Rightarrow> string \<Rightarrow> error option \<times> Call list" where
  "deleteByLabel api k label ns =
     (let err = deleteCollection api k ns label
      in (if IsNotFound err then None else err, [DeleteCollectionCall k ns label]))"

definition DeleteDeploymentByLabel :: "Api \<Rightarrow> string \<Rightarrow> string \<Rightarrow> error option \<times> Call list" where
  "DeleteDeploymentByLabel api label ns = deleteByLabel api Deployments label ns"

definition DeleteDaemonSetByLabel :: "Api \<Rightarrow> string \<Rightarrow> string \<Rightarrow> error option \<times> Call list" where
  "DeleteDaemonSetByLabel api label ns = deleteByLabel api DaemonSets label ns"

definition DeleteClusterRoleByLabel :: "Api \<Rightarrow> string \<Rightarrow> error option \<times> Call list" where
  "DeleteClusterRoleByLabel api label = deleteByLabel api ClusterRoles label []"

definition DeleteServiceAccountByLabel :: "Api \<Rightarrow> string \<Rightarrow> string \<Rightarrow> error option \<times> Call list" where
  "DeleteServiceAccountByLabel api label ns = deleteByLabel api ServiceAccounts label ns"

definition DeleteRoleBindingByLabel :: "Api \<Rightarrow> string \<Rightarrow> error option \<times> Call list" where
  "DeleteRoleBindingByLabel api label = deleteByLabel api ClusterRoleBindings label []"

definition DeleteSecretByLabel :: "Api \<Rightarrow> string \<Rightarrow> string \<Rightarrow> error option \<times> Call list" where
  "DeleteSecretByLabel api label ns = deleteByLabel api Secrets label ns"

definition DeleteConfigMapsByLabel :: "Api \<Rightarrow> string \<Rightarrow> string \<Rightarrow> error option \<times> Call list" where
  "DeleteConfigMapsByLabel api label ns = deleteByLabel api ConfigMaps label ns"

definition DeleteServiceByName :: "Api \<Rightarrow> string \<Rightarrow> string \<Rightarrow> error option \<times> Call list" where
  "DeleteServiceByName api name ns =
     (let err = deleteObject api Services ns name
      in (if IsNotFound err then None else err, [DeleteCall Services ns name]))"

text \<open>
  \<open>DeleteCoreInstance\<close> deletes the five named objects of an instance in every
  namespace, in the order of the code. An answer other than "not found" stops
  it. With \<open>shouldWait\<close> it then polls the deployment until a \<open>Get\<close> fails,
  once at once and once per second for a minute: the answers of these polls are
  the list \<open>getAfterDelete\<close>, and running out of them is the timeout, on which
  the code panics.
\<close>

record CoreNames =
  coreSecret :: string
  coreServiceAccount :: string
  coreClusterRole :: string
  coreClusterRoleBinding :: string
  coreDeployment :: string

fun pollGone :: "error option list \<Rightarrow> bool" where
  "pollGone [] = False"
| "pollGone (err # later) = (if err \<noteq> None then True else pollGone later)"

fun deleteSteps :: "Api \<Rightarrow> (ResourceKind \<times> string \<times> string) list \<Rightarrow> error option \<times> Call list" where
  "deleteSteps api [] = (None, [])"
| "deleteSteps api ((k, ns, name) # steps) =
     (let err = deleteObject api k ns name
      in if err \<noteq> None \<and> \<not> IsNotFound err then (err, [DeleteCall k ns name])
         else (case deleteSteps api steps of
                 (err', calls) \<Rightarrow> (err', DeleteCall k ns name # calls)))"

fun deleteInNamespaces ::
  "Api \<Rightarrow> CoreNames \<Rightarrow> bool \<Rightarrow> string list \<Rightarrow> error option outcome \<times> Call list" where
  "deleteInNamespaces api core shouldWait [] = (Return None, [])"
| "deleteInNamespaces api core shouldWait (namespaceName # rest) =
     (case deleteSteps api
             [(Deployments, namespaceName, coreDeployment core),
              (Secrets, namespaceName, coreSecret core),
              (ClusterRoles, [], coreClusterRole core),
              (ClusterRoleBindings, [], coreClusterRoleBinding core),
              (ServiceAccounts, namespaceName, coreServiceAccount core)] of
        (Some err, calls) \<Rightarrow> (Return (Some err), calls)
      | (None, calls) \<Rightarrow>
          if shouldWait \<and> \<not> pollGone (getAfterDelete api namespaceName (coreDeployment core))
          then (Panic, calls)
          else (case deleteInNamespaces api core shouldWait rest of
                  (res, calls') \<Rightarrow> (res, calls @ calls')))"

definition DeleteCoreInstance ::
  "Api \<Rightarrow> string \<Rightarrow> string \<Rightarrow> bool \<Rightarrow> error option outcome \<times> Call list" where
  "DeleteCoreInstance api name environment shouldWait =
     (let core = \<lparr>coreSecret = FormatResourceName [name, environment, ''secret''],
                  coreServiceAccount = FormatResourceName [name, environment, ''service-account''],
                  coreClusterRole = FormatResourceName [name, environment, ''cluster-role''],
                  coreClusterRoleBinding =
                    FormatResourceName [name, environment, ''cluster-role-binding''],
                  coreDeployment = FormatResourceName [name, environment, ''sync'']\<rparr>
      in case listNamespaces api of
           Inl err \<Rightarrow> (Return (Some err), [ListNamespacesCall])
         | Inr namespaceList \<Rightarrow>
             (case deleteInNamespaces api core shouldWait namespaceList of
                (res, calls) \<Rightarrow> (res, ListNamespacesCall # calls)))"

section \<open>Rollout updater\<close>

text \<open>
  The two image repositories of the sync workload are constants of the package
  \<open>utils\<close>, which the functions below take as parameters.
\<close>

record Defaults =
  DefaultCoreOperatorToCloudDockerImage :: string
  DefaultCoreOperatorFromCloudDockerImage :: string

definition FindDeploymentByLabel ::
  "Api \<Rightarrow> Client \<Rightarrow> string \<Rightarrow> (error + Deployment list) \<times> Call list" where
  "FindDeploymentByLabel api client label =
     (listDeployments api (clientNamespace client) label,
      [ListDeploymentsCall (clientNamespace client) label])"

text \<open>
  The loop of \<open>UpdateDeploymentByLabel\<close> over the environment variables: a variable
  named by either constant gets the new value, and \<open>found\<close> records that there was
  one.
\<close>

fun tlsLoop :: "string \<Rightarrow> EnvVar list \<Rightarrow> bool \<Rightarrow> EnvVar list \<times> bool" where
  "tlsLoop tlsVerify [] found = ([], found)"
| "tlsLoop tlsVerify (envVar # envVars) found =
     (if envName envVar = coreTLSVerifyEnvVar \<or> envName envVar = syncTLSVerifyEnvVar
      then (case tlsLoop tlsVerify envVars True of
              (rest, found') \<Rightarrow>
                ((if envValue envVar \<noteq> tlsVerify then envVar\<lparr>envValue := tlsVerify\<rparr>
                  else envVar) # rest, found'))
      else (case tlsLoop tlsVerify envVars found of
              (rest, found') \<Rightarrow> (envVar # rest, found')))"

definition setImage :: "string \<Rightarrow> Container list \<Rightarrow> Container list" where
  "setImage newImage containers = containers[0 := (containers ! 0)\<lparr>containerImage := newImage\<rparr>]"

definition noDeploymentFound :: "string \<Rightarrow> error" where
  "noDeploymentFound label = Errorf (''no deployment found with label '' @ label)"

definition noContainers :: "Deployment \<Rightarrow> error" where
  "noContainers deployment =
     Errorf (''no containers found in deployment '' @ metaName (deploymentObjectMeta deployment))"

definition UpdateDeploymentByLabel ::
  "Api \<Rightarrow> Client \<Rightarrow> string \<Rightarrow> string \<Rightarrow> string \<Rightarrow> error option \<times> Call list" where
  "UpdateDeploymentByLabel api client label newImage tlsVerify =
     (case FindDeploymentByLabel api client label of
        (Inl err, calls) \<Rightarrow> (Some err, calls)
      | (Inr items, calls) \<Rightarrow>
          if length items = 0 then (Some (noDeploymentFound label), calls)
          else
            let deployment = items ! 0
            in if length (templateContainers deployment) = 0
               then (Some (noContainers deployment), calls)
               else
                 let containers = setImage newImage (templateContainers deployment);
                     envVars = containerEnv (containers ! 0);
                     (envVars', found) = tlsLoop tlsVerify envVars False;
                     envVars'' = (if \<not> found
                        then envVars' @ [\<lparr>envName = syncTLSVerifyEnvVar, envValue = tlsVerify,
                                          envFieldPath = None\<rparr>]
                        else envVars');
                     deployment' = deployment\<lparr>templateContainers :=
                        containers[0 := (containers ! 0)\<lparr>containerEnv := envVars''\<rparr>]\<rparr>
                 in (updateDeployment api (clientNamespace client) deployment',
                     calls @ [UpdateDeploymentCall (clientNamespace client) deployment']))"

text \<open>
  \<open>updateEnvVars\<close>: the loop gives every variable named \<open>NO_TLS_VERIFY\<close> the new
  value; when there was none, a variable named \<open>CORE_TLS_VERIFY\<close> is appended.
\<close>

fun updateEnvLoop :: "string \<Rightarrow> EnvVar list \<Rightarrow> bool \<Rightarrow> EnvVar list \<times> bool" where
  "updateEnvLoop tlsVerify [] found = ([], found)"
| "updateEnvLoop tlsVerify (envVar # envVars) found =
     (if envName envVar = syncTLSVerifyEnvVar
      then (case updateEnvLoop tlsVerify envVars True of
              (rest, found') \<Rightarrow>
                ((if envValue envVar \<noteq> tlsVerify then envVar\<lparr>envValue := tlsVerify\<rparr>
                  else envVar) # rest, found'))
      else (case updateEnvLoop tlsVerify envVars found of
              (rest, found') \<Rightarrow> (envVar # rest, found')))"

definition updateEnvVars :: "EnvVar list \<Rightarrow> string \<Rightarrow> EnvVar list" where
  "updateEnvVars envVars tlsVerify =
     (case updateEnvLoop tlsVerify envVars False of
        (envVars', found) \<Rightarrow>
          if \<not> found
          then envVars' @ [\<lparr>envName = coreTLSVerifyEnvVar, envValue = tlsVerify,
                            envFieldPath = None\<rparr>]
          else envVars')"

text \<open>
  The loop of \<open>UpdateSyncDeploymentByLabel\<close> over the containers. Both tests are
  made on every container, the second after the first, and both read the name and
  the environment of the container as it was listed.
\<close>

definition syncContainer :: "Defaults \<Rightarrow> string \<Rightarrow> string \<Rightarrow> Container \<Rightarrow> Container" where
  "syncContainer defaults newImage tlsVerify container =
     (let c1 = (if Contains (containerName container) ''to-cloud''
                then container\<lparr>containerImage :=
                       DefaultCoreOperatorToCloudDockerImage defaults @ '':'' @ newImage,
                     containerEnv := updateEnvVars (containerEnv container) tlsVerify\<rparr>
                else container)
      in if Contains (containerName container) ''from-cloud''
         then c1\<lparr>containerImage :=
                  DefaultCoreOperatorFromCloudDockerImage defaults @ '':'' @ newImage,
                containerEnv := updateEnvVars (containerEnv container) tlsVerify\<rparr>
         else c1)"

fun syncContainers :: "Defaults \<Rightarrow> string \<Rightarrow> string \<Rightarrow> Container list \<Rightarrow> Container list" where
  "syncContainers defaults newImage tlsVerify [] = []"
| "syncContainers defaults newImage tlsVerify (container # containers) =
     syncContainer defaults newImage tlsVerify container
       # syncContainers defaults newImage tlsVerify containers"

definition rolloutDeployment :: "Api \<Rightarrow> string \<Rightarrow> string \<Rightarrow> error option \<times> Call list" where
  "rolloutDeployment api namespace deployment =
     (let data = ''{\"spec\": {\"template\": {\"metadata\": {\"annotations\": ''
                 @ ''{\"kubectl.kubernetes.io/restartedAt\": \"'' @ timeNow api @ ''\"}}}}}''
      in (patchDeployment api namespace deployment data,
          [PatchDeploymentCall namespace deployment data]))"

definition waitFor :: "Api \<Rightarrow> string \<Rightarrow> string \<Rightarrow> bool \<Rightarrow> error option \<times> Call list" where
  "waitFor api namespace name verbose =
     (WaitReady verbose (pollFirst api namespace name) (pollLater api namespace name)
        (pollDiag api namespace name),
      [WaitReadyCall namespace name])"

text \<open>
  What both updates with a rollout do once the changed deployment is built: send
  the update, patch the restart annotation, wait for readiness; the first error
  is returned.
\<close>

definition updateRolloutWait ::
  "Api \<Rightarrow> Client \<Rightarrow> Deployment \<Rightarrow> bool \<Rightarrow> Call list \<Rightarrow> error option \<times> Call list" where
  "updateRolloutWait api client deployment verbose calls =
     (let ns = metaNamespace (deploymentObjectMeta deployment);
          name = metaName (deploymentObjectMeta deployment);
          calls1 = calls @ [UpdateDeploymentCall (clientNamespace client) deployment]
      in case updateDeployment api (clientNamespace client) deployment of
           Some err \<Rightarrow> (Some err, calls1)
         | None \<Rightarrow>
             (case rolloutDeployment api ns name of
                (Some err, calls2) \<Rightarrow> (Some err, calls1 @ calls2)
              | (None, calls2) \<Rightarrow>
                  (case waitFor api ns name verbose of
                     (Some err, calls3) \<Rightarrow> (Some err, calls1 @ calls2 @ calls3)
                   | (None, calls3) \<Rightarrow> (None, calls1 @ calls2 @ calls3))))"

definition UpdateSyncDeploymentByLabel ::
  "Api \<Rightarrow> Client \<Rightarrow> Defaults \<Rightarrow> string \<Rightarrow> string \<Rightarrow> string \<Rightarrow> bool
     \<Rightarrow> error option \<times> Call list" where
  "UpdateSyncDeploymentByLabel api client defaults label newImage tlsVerify verbose =
     (case FindDeploymentByLabel api client label of
        (Inl err, calls) \<Rightarrow> (Some err, calls)
      | (Inr items, calls) \<Rightarrow>
          if length items = 0 then (Some (noDeploymentFound label), calls)
          else
            let deployment = items ! 0
            in if length (templateContainers deployment) = 0
               then (Some (noContainers deployment), calls)
               else
                 let deployment' = deployment\<lparr>templateContainers :=
                       syncContainers defaults newImage tlsVerify (templateContainers deployment)\<rparr>
                 in updateRolloutWait api client deployment' verbose calls)"

definition UpdateOperatorDeploymentByLabel ::
  "Api \<Rightarrow> Client \<Rightarrow> string \<Rightarrow> string \<Rightarrow> bool \<Rightarrow> error option \<times> Call list" where
  "UpdateOperatorDeploymentByLabel api client label newImage verbose =
     (case FindDeploymentByLabel api client label of
        (Inl err, calls) \<Rightarrow> (Some err, calls)
      | (Inr items, calls) \<Rightarrow>
          if length items = 0 then (Some (noDeploymentFound label), calls)
          else
            let deployment = items ! 0
            in if length (templateContainers deployment) = 0
               then (Some (noContainers deployment), calls)
               else
                 let deployment' = deployment\<lparr>templateContainers :=
                       setImage newImage (templateContainers deployment)\<rparr>
                 in updateRolloutWait api client deployment' verbose calls)"

section \<open>Install-state inspector\<close>

definition ErrCoreOperatorNotFound :: error where
  "ErrCoreOperatorNotFound = Errorf ''could not find core operator across all namespaces''"

text \<open>
  \<open>SearchManagerAcrossAllNamespaces\<close>. The typed client's \<open>Get\<close> returns an empty
  deployment beside its error, so after a "not found" answer \<open>manager\<close> is the
  empty deployment; before the first namespace it is the nil pointer (\<open>None\<close>),
  whose name cannot be read.
\<close>

definition emptyDeployment :: Deployment where
  "emptyDeployment =
     \<lparr>deploymentTypeMeta = \<lparr>kind = [], apiVersion = []\<rparr>,
      deploymentObjectMeta = \<lparr>metaName = [], metaNamespace = [], metaLabels = []\<rparr>,
      deploymentReplicas = 0, deploymentSelector = [], templateLabels = [],
      templateServiceAccountName = [], templateAutomountServiceAccountToken = None,
      templateContainers = []\<rparr>"

fun searchLoop ::
  "Api \<Rightarrow> string list \<Rightarrow> Deployment option \<times> error option
     \<Rightarrow> error + (Deployment option \<times> error option)" where
  "searchLoop api [] st = Inr st"
| "searchLoop api (namespace # rest) st =
     (let (manager, err) =
            (case getDeploymentByName api namespace operatorDeploymentName of
               Inl e \<Rightarrow> (emptyDeployment, Some e)
             | Inr d \<Rightarrow> (d, None))
      in if err \<noteq> None \<and> \<not> IsNotFound err then Inl (the err)
         else if metaName (deploymentObjectMeta manager) \<noteq> [] then Inr (Some manager, err)
         else searchLoop api rest (Some manager, err))"

definition SearchManagerAcrossAllNamespaces :: "Api \<Rightarrow> (error + Deployment) outcome" where
  "SearchManagerAcrossAllNamespaces api =
     (case listNamespaces api of
        Inl err \<Rightarrow> Return (Inl err)
      | Inr namespaces \<Rightarrow>
          (case searchLoop api namespaces (None, None) of
             Inl err \<Rightarrow> Return (Inl err)
           | Inr (None, err) \<Rightarrow> Panic
           | Inr (Some manager, err) \<Rightarrow>
               if metaName (deploymentObjectMeta manager) = []
               then Return (Inl ErrCoreOperatorNotFound)
               else (case err of
                       Some e \<Rightarrow> Return (Inl e)
                     | None \<Rightarrow> Return (Inr manager))))"

text \<open>
  \<open>CheckOperatorVersion\<close> reads the image of the first container and takes the
  element of index 1 of its split at the colons. Both indexings panic when the
  slice is too short.
\<close>

definition CheckOperatorVersion :: "Api \<Rightarrow> (error + string) outcome" where
  "CheckOperatorVersion api =
     (case SearchManagerAcrossAllNamespaces api of
        Panic \<Rightarrow> Panic
      | Return (Inl err) \<Rightarrow> Return (Inl err)
      | Return (Inr manager) \<Rightarrow>
          if length (templateContainers manager) = 0 then Panic
          else
            let managerImage = containerImage (templateContainers manager ! 0);
                parts = Split managerImage '':''
            in if length parts \<le> 1 then Panic
               else
                 let managerImageVersion = parts ! 1
                 in if managerImageVersion = []
                    then Return (Inl (Errorf
                      (''could not parse version from manager image: '' @ managerImage)))
                    else Return (Inr managerImageVersion))"

text \<open>
  \<open>IsOperatorInstalled\<close> reads the cluster five times: a list of the pipelines
  resource through the dynamic client, and lists of all deployments, cluster roles,
  cluster role bindings and service accounts. The answers are inputs: an error or
  the listed objects, a namespaced object as the pair of its namespace and name.
  Failing to build the dynamic client returns its error; failing to build the
  second client or to list panics.
\<close>

record ClusterView =
  newDynamicClient :: "error option"
  pipelinesList :: "error option"
  newK8sClient :: "error option"
  deploymentList :: "error + (string \<times> string) list"
  clusterRoleList :: "error + string list"
  clusterRoleBindingList :: "error + string list"
  serviceAccountList :: "error + (string \<times> string) list"

fun deploymentsLoop :: "(string \<times> string) list \<Rightarrow> string list \<Rightarrow> string list" where
  "deploymentsLoop [] errors = errors"
| "deploymentsLoop ((namespace, name) # items) errors =
     deploymentsLoop items
       (if name = operatorDeploymentName
        then errors @ [''Operator pod: '' @ namespace @ ''/'' @ name] else errors)"

definition clusterRoleStep :: "string \<Rightarrow> string list \<Rightarrow> string list" where
  "clusterRoleStep name errors =
     (let e1 = (if name = ''calyptia-core-manager-role''
                then errors @ [''ClusterRole: '' @ name] else errors);
          e2 = (if name = ''calyptia-core-metrics-reader''
                then e1 @ [''ClusterRole: '' @ name] else e1);
          e3 = (if name = ''calyptia-core-pod-role''
                then e2 @ [''ClusterRole: '' @ name] else e2)
      in if name = ''calyptia-core-proxy-role''
         then e3 @ [''ClusterRole: '' @ name] else e3)"

fun clusterRolesLoop :: "string list \<Rightarrow> string list \<Rightarrow> string list" where
  "clusterRolesLoop [] errors = errors"
| "clusterRolesLoop (name # items) errors = clusterRolesLoop items (clusterRoleStep name errors)"

definition bindingStep :: "string \<Rightarrow> string list \<Rightarrow> string list" where
  "bindingStep name errors =
     (let e1 = (if name = ''calyptia-core-manager-rolebinding''
                then errors @ [''ClusterRoleBinding: '' @ name] else errors)
      in if name = ''calyptia-core-proxy-rolebinding''
         then e1 @ [''ClusterRoleBinding: '' @ name] else e1)"

fun bindingsLoop :: "string list \<Rightarrow> string list \<Rightarrow> string list" where
  "bindingsLoop [] errors = errors"
| "bindingsLoop (name # items) errors = bindingsLoop items (bindingStep name errors)"

fun accountsLoop :: "(string \<times> string) list \<Rightarrow> string list \<Rightarrow> string list" where
  "accountsLoop [] errors = errors"
| "accountsLoop ((namespace, name) # items) errors =
     accountsLoop items
       (if name = operatorDeploymentName
        then errors @ [''ServiceAccount: '' @ namespace @ ''/'' @ name] else errors)"

definition IsOperatorInstalled :: "ClusterView \<Rightarrow> (bool \<times> error option) outcome" where
  "IsOperatorInstalled cluster =
     (case newDynamicClient cluster of
        Some err \<Rightarrow> Return (False, Some err)
      | None \<Rightarrow>
          let errors0 = (if pipelinesList cluster = None
                         then [''CustomResourceDefinition Pipeline installed''] else [])
          in if newK8sClient cluster \<noteq> None then Panic
             else
               (case deploymentList cluster of
                  Inl err \<Rightarrow> Panic
                | Inr deployments \<Rightarrow>
                    (case clusterRoleList cluster of
                       Inl err \<Rightarrow> Panic
                     | Inr clusterRoles \<Rightarrow>
                         (case clusterRoleBindingList cluster of
                            Inl err \<Rightarrow> Panic
                          | Inr crbList \<Rightarrow>
                              (case serviceAccountList cluster of
                                 Inl err \<Rightarrow> Panic
                               | Inr saList \<Rightarrow>
                                   let errors1 = deploymentsLoop deployments errors0;
                                       errors2 = clusterRolesLoop clusterRoles errors1;
                                       errors3 = bindingsLoop crbList errors2;
                                       errors4 = accountsLoop saList errors3
                                   in if length errors4 > 0
                                      then Return (True, Some (OperatorIncompleteError errors4))
                                      else Return (False, None))))))"

text \<open>The method \<open>Error\<close> of \<open>OperatorIncompleteError\<close>: the messages, one per line.\<close>

fun errorMessage :: "error \<Rightarrow> string" where
  "errorMessage (OperatorIncompleteError errors) = Join errors [CHR 0x0A]"
| "errorMessage (Errorf msg) = msg"
| "errorMessage (ApiError msg) = msg"
| "errorMessage NotFound = ''not found''"
| "errorMessage DeadlineExceeded = ''context deadline exceeded''"
| "errorMessage (WaitFailed msgs) = ''failed while waiting for deployment to start''"

section \<open>What a single-deployment update may touch\<close>

text \<open>
  A request targets the deployment \<open>d\<close> when it is an update, in the client's
  namespace, of \<open>d\<close> with at most its containers changed, a patch of the
  deployment of \<open>d\<close>'s namespace and name, or no mutation at all.
\<close>

fun targets :: "Client \<Rightarrow> Deployment \<Rightarrow> Call \<Rightarrow> bool" where
  "targets client d (UpdateDeploymentCall ns d') =
     (ns = clientNamespace client \<and> d' = d\<lparr>templateContainers := templateContainers d'\<rparr>)"
| "targets client d (PatchDeploymentCall ns name data) =
     (ns = metaNamespace (deploymentObjectMeta d) \<and> name = metaName (deploymentObjectMeta d))"
| "targets client d c = (\<not> isMutation c)"

text \<open>
  The result of an update when no deployment matches: the error that names the
  label, after the listing alone. And when \<open>d\<close> is the first deployment listed:
  every request targets \<open>d\<close>; without containers \<open>d\<close> is an error and nothing is
  changed, otherwise the update of \<open>d\<close> is sent.
\<close>

definition zeroMatch :: "string \<Rightarrow> string \<Rightarrow> error option \<times> Call list \<Rightarrow> bool" where
  "zeroMatch ns label r =
     (fst r = Some (noDeploymentFound label) \<and> snd r = [ListDeploymentsCall ns label]
      \<and> \<not> list_ex isMutation (snd r))"

definition firstMatch :: "Client \<Rightarrow> Deployment \<Rightarrow> error option \<times> Call list \<Rightarrow> bool" where
  "firstMatch client d r =
     (list_all (targets client d) (snd r)
      \<and> (if templateContainers d = [] then fst r = Some (noContainers d) \<and> \<not> list_ex isMutation (snd r)
          else list_ex (\<lambda>c. case c of UpdateDeploymentCall ns d' \<Rightarrow> True | _ \<Rightarrow> False) (snd r)))"

section \<open>Residue of an earlier installation\<close>

text \<open>
  The well-known names, and the lines that describe the residue among the listed
  objects: one for the pipelines resource when its listing succeeds, one for
  every deployment and every service account named like the operator's
  deployment, one for every cluster role and every cluster role binding with a
  well-known name.
\<close>

definition wellKnownClusterRoles :: "string list" where
  "wellKnownClusterRoles = [''calyptia-core-manager-role'', ''calyptia-core-metrics-reader'',
     ''calyptia-core-pod-role'', ''calyptia-core-proxy-role'']"

definition wellKnownClusterRoleBindings :: "string list" where
  "wellKnownClusterRoleBindings =
     [''calyptia-core-manager-rolebinding'', ''calyptia-core-proxy-rolebinding'']"

definition residueLines ::
  "bool \<Rightarrow> (string \<times> string) list \<Rightarrow> string list \<Rightarrow> string list \<Rightarrow> (string \<times> string) list
     \<Rightarrow> string list" where
  "residueLines crd deployments roles bindings accounts =
     (if crd then [''CustomResourceDefinition Pipeline installed''] else [])
     @ map (\<lambda>(ns, name). ''Operator pod: '' @ ns @ ''/'' @ name)
         (filter (\<lambda>(ns, name). name = operatorDeploymentName) deployments)
     @ map (\<lambda>name. ''ClusterRole: '' @ name)
         (filter (\<lambda>name. name \<in> set wellKnownClusterRoles) roles)
     @ map (\<lambda>name. ''ClusterRoleBinding: '' @ name)
         (filter (\<lambda>name. name \<in> set wellKnownClusterRoleBindings) bindings)
     @ map (\<lambda>(ns, name). ''ServiceAccount: '' @ ns @ ''/'' @ name)
         (filter (\<lambda>(ns, name). name = operatorDeploymentName) accounts)"

text \<open>
  A cluster is free of residue when the pipelines resource cannot be listed and
  no listed object has a well-known name.
\<close>

definition residueFree ::
  "bool \<Rightarrow> (string \<times> string) list \<Rightarrow> string list \<Rightarrow> string list \<Rightarrow> (string \<times> string) list
     \<Rightarrow> bool" where
  "residueFree crd deployments roles bindings accounts =
     (\<not> crd \<and> (\<forall>(ns, name) \<in> set deployments. name \<noteq> operatorDeploymentName)
      \<and> (\<forall>name \<in> set roles. name \<notin> set wellKnownClusterRoles)
      \<and> (\<forall>name \<in> set bindings. name \<notin> set wellKnownClusterRoleBindings)
      \<and> (\<forall>(ns, name) \<in> set accounts. name \<noteq> operatorDeploymentName))"

text \<open>
  An error enumerates the residue when it has a message for each residue object,
  and its text holds every one of its messages.
\<close>

definition enumerates ::
  "string list \<Rightarrow> bool \<Rightarrow> (string \<times> string) list \<Rightarrow> string list \<Rightarrow> string list
     \<Rightarrow> (string \<times> string) list \<Rightarrow> bool" where
  "enumerates errors crd deployments roles bindings accounts =
     ((crd \<longrightarrow> ''CustomResourceDefinition Pipeline installed'' \<in> set errors)
      \<and> (\<forall>(ns, name) \<in> set deployments. name = operatorDeploymentName \<longrightarrow>
             ''Operator pod: '' @ ns @ ''/'' @ name \<in> set errors)
      \<and> (\<forall>name \<in> set roles. name \<in> set wellKnownClusterRoles \<longrightarrow>
             ''ClusterRole: '' @ name \<in> set errors)
      \<and> (\<forall>name \<in> set bindings. name \<in> set wellKnownClusterRoleBindings \<longrightarrow>
             ''ClusterRoleBinding: '' @ name \<in> set errors)
      \<and> (\<forall>(ns, name) \<in> set accounts. name = operatorDeploymentName \<longrightarrow>
             ''ServiceAccount: '' @ ns @ ''/'' @ name \<in> set errors)
      \<and> (\<forall>line \<in> set errors. Contains (errorMessage (OperatorIncompleteError errors)) line))"

section \<open>A sample cluster\<close>

text \<open>
  Concrete inputs at which the theorems below are evaluated: a cluster that
  answers "not found" to every deletion and lists no deployment, a client and a
  core instance.
\<close>

definition sampleDeployment :: "string \<Rightarrow> string \<Rightarrow> Container list \<Rightarrow> Deployment" where
  "sampleDeployment ns name containers =
     \<lparr>deploymentTypeMeta = \<lparr>kind = ''Deployment'', apiVersion = ''apps/v1''\<rparr>,
      deploymentObjectMeta = \<lparr>metaName = name, metaNamespace = ns, metaLabels = []\<rparr>,
      deploymentReplicas = 1, deploymentSelector = [], templateLabels = [],
      templateServiceAccountName = [], templateAutomountServiceAccountToken = None,
      templateContainers = containers\<rparr>"

definition sampleContainer :: "string \<Rightarrow> string \<Rightarrow> EnvVar list \<Rightarrow> Container" where
  "sampleContainer name img env =
     \<lparr>containerName = name, containerImage = img, containerImagePullPolicy = ''Always'',
      containerArgs = [], containerEnv = env\<rparr>"

definition sampleView :: "Pod list \<Rightarrow> PollView" where
  "sampleView pods = \<lparr>getDeployment = Inr ''app=core'', listPods = Inr pods\<rparr>"

definition sampleApi :: "Deployment list \<Rightarrow> Api" where
  "sampleApi items =
     \<lparr>createSecret = (\<lambda>ns req. Inr req),
      createClusterRole = (\<lambda>req. Inr req),
      createServiceAccount = (\<lambda>ns req. Inr req),
      createClusterRoleBinding = (\<lambda>req. Inr req),
      createDeployment = (\<lambda>ns req. Inr req),
      deleteCollection = (\<lambda>k ns label. Some NotFound),
      deleteObject = (\<lambda>k ns name. Some NotFound),
      listDeployments = (\<lambda>ns label. Inr items),
      updateDeployment = (\<lambda>ns d. None),
      patchDeployment = (\<lambda>ns name data. None),
      listNamespaces = Inr [''default'', ''calyptia-core''],
      getDeploymentByName = (\<lambda>ns name. if items = [] then Inl NotFound else Inr (hd items)),
      getAfterDelete = (\<lambda>ns name. [Some NotFound]),
      pollFirst = (\<lambda>ns name. sampleView
        [\<lparr>podName = ''core-0'', podPhase = ''Running'', containerStatuses = []\<rparr>]),
      pollLater = (\<lambda>ns name. []),
      pollDiag = (\<lambda>ns name. sampleView []),
      timeNow = ''20240101000000''\<rparr>"

definition sampleClient :: Client where
  "sampleClient =
     \<lparr>clientNamespace = ''default'', clientProjectToken = ''token'',
      clientCloudBaseURL = ''https://cloud-api.calyptia.com'',
      clientLabels = [(''calyptia_aggregator_name'', ''core'')]\<rparr>"

definition sampleInstance :: CreatedCoreInstance where
  "sampleInstance =
     \<lparr>instanceName = ''core'', instanceEnvironmentName = ''default'',
      instancePrivateRSAKey = ''key''\<rparr>"

definition sampleDefaults :: Defaults where
  "sampleDefaults =
     \<lparr>DefaultCoreOperatorToCloudDockerImage = ''ghcr.io/calyptia/core-operator/sync-to-cloud'',
      DefaultCoreOperatorFromCloudDockerImage = ''ghcr.io/calyptia/core-operator/sync-from-cloud''\<rparr>"

definition sampleCluster :: "(string \<times> string) list \<Rightarrow> string list \<Rightarrow> ClusterView" where
  "sampleCluster deployments roles =
     \<lparr>newDynamicClient = None, pipelinesList = Some NotFound, newK8sClient = None,
      deploymentList = Inr deployments, clusterRoleList = Inr roles,
      clusterRoleBindingList = Inr [''cluster-admin''],
      serviceAccountList = Inr [(''default'', ''default'')]\<rparr>"

text \<open>A file system that works, and the three documents of a small manifest.\<close>

definition sampleFs :: "string \<Rightarrow> FileSystem" where
  "sampleFs manifest =
     \<lparr>readManifest = Inr manifest, mkdirTemp = Inr ''/tmp/calyptia-operator1'',
      createTemp = Inr ''/tmp/calyptia-operator1/operator_1.yaml'', writeString = None\<rparr>"

definition namespaceDocument :: string where
  "namespaceDocument = ''kind: Namespace\<newline>  name: calyptia-core\<newline>''"

definition rbacDocument :: string where
  "rbacDocument = ''kind: ServiceAccount\<newline>  namespace: calyptia-core\<newline>''"

definition deploymentDocument :: string where
  "deploymentDocument =
     ''kind: Deployment\<newline>  namespace: calyptia-core\<newline>  image: ghcr.io/calyptia/core-operator:v1\<newline>''"

section \<open>Readiness: lemmas\<close>

lemma podsLoop_iff:
  "podsLoop pods r = (if pods = [] then r else list_all (\<lambda>p. podPhase p = PodRunning) pods)"
  by (induction pods arbitrary: r) (auto simp: Let_def)

lemma isDeploymentReady_true_iff:
  "isDeploymentReady v = (True, None) \<longleftrightarrow>
     (\<exists>sel pods. getDeployment v = Inr sel \<and> listPods v = Inr pods \<and> pods \<noteq> [] \<and>
        list_all (\<lambda>p. podPhase p = PodRunning) pods)"
  by (auto simp: isDeploymentReady_def podsLoop_iff split: sum.splits)

lemma pollLoop_None:
  "pollLoop vs = None \<Longrightarrow> \<exists>v \<in> set vs. isDeploymentReady v = (True, None)"
  by (induction vs) (auto split: prod.splits option.splits if_splits)

lemma pollLoop_no_pods:
  "\<forall>v \<in> set vs. listPods v = Inr [] \<Longrightarrow> pollLoop vs \<noteq> None"
  by (induction vs) (auto simp: isDeploymentReady_def split: sum.splits)

lemma WaitReady_None_iff:
  "WaitReady verbose first later diag = None \<longleftrightarrow> pollLoop (first # later) = None"
  unfolding WaitReady_def PollUntilContextTimeout_def
  by (auto split: option.splits sum.splits)

text \<open>
  C10. A poll that finds no pod reports not ready (and no error), so \<open>WaitReady\<close>
  over polls that all find no pod does not return \<open>nil\<close>; and whenever \<open>WaitReady\<close>
  returns \<open>nil\<close>, some poll listed at least one pod and every listed pod was in
  the running phase.
\<close>

theorem C10_no_pods_not_ready:
  "(getDeployment v = Inr sel \<and> listPods v = Inr [] \<longrightarrow> isDeploymentReady v = (False, None))
   \<and> ((\<forall>w \<in> set (first # later). listPods w = Inr []) \<longrightarrow>
        WaitReady verbose first later diag \<noteq> None)
   \<and> (WaitReady verbose first later diag = None \<longrightarrow>
        (\<exists>w \<in> set (first # later). \<exists>pods. listPods w = Inr pods \<and> pods \<noteq> [] \<and>
           (\<forall>p \<in> set pods. podPhase p = PodRunning)))"
proof (intro conjI impI)
  assume "getDeployment v = Inr sel \<and> listPods v = Inr []"
  then show "isDeploymentReady v = (False, None)"
    by (simp add: isDeploymentReady_def)
next
  assume "\<forall>w \<in> set (first # later). listPods w = Inr []"
  then have "pollLoop (first # later) \<noteq> None"
    by (rule pollLoop_no_pods)
  then show "WaitReady verbose first later diag \<noteq> None"
    by (simp add: WaitReady_None_iff)
next
  assume "WaitReady verbose first later diag = None"
  then have "pollLoop (first # later) = None"
    by (simp add: WaitReady_None_iff)
  then obtain w where w: "w \<in> set (first # later)" "isDeploymentReady w = (True, None)"
    using pollLoop_None by blast
  from w(2) obtain pods where
    "listPods w = Inr pods" "pods \<noteq> []" "list_all (\<lambda>p. podPhase p = PodRunning) pods"
    unfolding isDeploymentReady_true_iff by blast
  with w(1) show "\<exists>w \<in> set (first # later). \<exists>pods. listPods w = Inr pods \<and> pods \<noteq> [] \<and>
           (\<forall>p \<in> set pods. podPhase p = PodRunning)"
    by (auto simp: list_all_iff)
qed

theorem C10_no_pods_not_ready_witness:
  "isDeploymentReady \<lparr>getDeployment = Inr ''app=core'', listPods = Inr []\<rparr> = (False, None)
   \<and> WaitReady False \<lparr>getDeployment = Inr ''app=core'', listPods = Inr []\<rparr> []
         \<lparr>getDeployment = Inr ''app=core'', listPods = Inr []\<rparr> \<noteq> None
   \<and> WaitReady False
         \<lparr>getDeployment = Inr ''app=core'', listPods = Inr []\<rparr>
         [\<lparr>getDeployment = Inr ''app=core'',
           listPods = Inr [\<lparr>podName = ''core-0'', podPhase = ''Running'', containerStatuses = []\<rparr>]\<rparr>]
         \<lparr>getDeployment = Inr ''app=core'', listPods = Inr []\<rparr> = None
   \<and> list_all (\<lambda>p. podPhase p = PodRunning)
         [\<lparr>podName = ''core-0'', podPhase = ''Running'', containerStatuses = []\<rparr>]"
  using C10_no_pods_not_ready
    [of "\<lparr>getDeployment = Inr ''app=core'', listPods = Inr []\<rparr>" "''app=core''"
        "\<lparr>getDeployment = Inr ''app=core'', listPods = Inr []\<rparr>" "[]" False
        "\<lparr>getDeployment = Inr ''app=core'', listPods = Inr []\<rparr>"]
    C10_no_pods_not_ready
    [of "\<lparr>getDeployment = Inr ''app=core'', listPods = Inr []\<rparr>" "''app=core''"
        "\<lparr>getDeployment = Inr ''app=core'', listPods = Inr []\<rparr>"
        "[\<lparr>getDeployment = Inr ''app=core'',
           listPods = Inr [\<lparr>podName = ''core-0'', podPhase = ''Running'', containerStatuses = []\<rparr>]\<rparr>]"
        False
        "\<lparr>getDeployment = Inr ''app=core'', listPods = Inr []\<rparr>"]
  by (simp add: WaitReady_def PollUntilContextTimeout_def isDeploymentReady_def PodRunning_def)

section \<open>String functions: lemmas\<close>

lemma Contains_iff_sublist: "Contains s sub \<longleftrightarrow> sublist sub s"
  by (induction s) (auto simp: sublist_Cons_right)

lemma replaceLoop_absent:
  "old \<noteq> [] \<Longrightarrow> \<not> Contains s old \<Longrightarrow> replaceLoop old new s = s"
  by (induction s) auto

lemma drop_prefix_tail:
  "old \<noteq> [] \<Longrightarrow> c # cs = old @ r \<Longrightarrow> drop (length old - 1) cs = r"
  by (cases old) auto

lemma replaceLoop_prefix:
  "old \<noteq> [] \<Longrightarrow> replaceLoop old new (old @ r) = new @ replaceLoop old new r"
  by (cases old) auto

lemma replaceLoop_same_aux: "new = old \<Longrightarrow> old \<noteq> [] \<Longrightarrow> replaceLoop old new s = s"
proof (induction old new s rule: replaceLoop.induct)
  case (1 old new)
  then show ?case by simp
next
  case (2 old new c cs)
  show ?case
  proof (cases "prefix old (c # cs)")
    case False
    with 2 show ?thesis by simp
  next
    case True
    then obtain r where r: "c # cs = old @ r" by (auto simp: prefix_def)
    with 2(4) have "drop (length old - 1) cs = r" by (rule drop_prefix_tail)
    with 2 True have "replaceLoop old new r = r" by simp
    then show ?thesis
      unfolding r using 2(3,4) by (simp add: replaceLoop_prefix)
  qed
qed

lemma replaceLoop_same: "old \<noteq> [] \<Longrightarrow> replaceLoop old old s = s"
  by (rule replaceLoop_same_aux) simp_all

lemma length_replaceLoop_le:
  "length new \<le> length old \<Longrightarrow> length (replaceLoop old new s) \<le> length s"
proof (induction old new s rule: replaceLoop.induct)
  case (1 old new)
  then show ?case by simp
next
  case (2 old new c cs)
  show ?case
  proof (cases "prefix old (c # cs)")
    case False
    with 2 show ?thesis by simp
  next
    case True
    then have "length old \<le> Suc (length cs)"
      using prefix_length_le by fastforce
    moreover have "length (replaceLoop old new (drop (length old - 1) cs))
        \<le> length cs - (length old - 1)"
      using 2(1) [OF True 2(3)] by simp
    ultimately show ?thesis using True 2(3) by simp
  qed
qed

lemma length_replaceLoop_ge:
  "length old \<le> length new \<Longrightarrow> old \<noteq> [] \<Longrightarrow> length s \<le> length (replaceLoop old new s)"
proof (induction old new s rule: replaceLoop.induct)
  case (1 old new)
  then show ?case by simp
next
  case (2 old new c cs)
  show ?case
  proof (cases "prefix old (c # cs)")
    case False
    with 2 show ?thesis by simp
  next
    case True
    then have "length old \<le> Suc (length cs)"
      using prefix_length_le by fastforce
    moreover have "length cs - (length old - 1)
        \<le> length (replaceLoop old new (drop (length old - 1) cs))"
      using 2(1) [OF True 2(3) 2(4)] by simp
    moreover have "0 < length old" using 2(4) by simp
    ultimately show ?thesis using True 2(3) by simp
  qed
qed

lemma replaceLoop_fixed:
  "old \<noteq> [] \<Longrightarrow> replaceLoop old new s = s \<Longrightarrow> Contains s old \<Longrightarrow> new = old"
proof (induction s)
  case Nil
  then show ?case by simp
next
  case (Cons c cs)
  show ?case
  proof (cases "prefix old (c # cs)")
    case False
    with Cons show ?thesis by simp
  next
    case True
    then obtain r where r: "c # cs = old @ r" by (auto simp: prefix_def)
    let ?r' = "replaceLoop old new r"
    from Cons.prems(2) have "replaceLoop old new (old @ r) = old @ r"
      unfolding r .
    then have eq: "new @ ?r' = old @ r"
      using Cons.prems(1) by (simp add: replaceLoop_prefix)
    then have sum: "length new + length ?r' = length old + length r"
      by (metis length_append)
    have "length new = length old"
    proof (rule ccontr)
      assume ne: "length new \<noteq> length old"
      show False
      proof (cases "length new < length old")
        case True
        then have "length ?r' \<le> length r" using length_replaceLoop_le [of new old r] by simp
        with sum True show False by simp
      next
        case False
        with ne have lt: "length old < length new" by simp
        then have "length r \<le> length ?r'" using length_replaceLoop_ge [of old new r] Cons.prems(1) by simp
        with sum lt show False by simp
      qed
    qed
    with eq show ?thesis by simp
  qed
qed

lemma replaceLoop_fixed_iff:
  "old \<noteq> [] \<Longrightarrow> replaceLoop old new s = s \<longleftrightarrow> (new = old \<or> \<not> Contains s old)"
  using replaceLoop_fixed replaceLoop_absent replaceLoop_same by metis

lemma joinWith_Contains:
  "l \<in> set ls \<Longrightarrow> Contains (joinWith sep ls) l"
proof (induction sep ls rule: joinWith.induct)
  case (1 sep)
  then show ?case by simp
next
  case (2 sep x)
  then show ?case by (simp add: Contains_iff_sublist)
next
  case (3 sep x y ys)
  show ?case
  proof (cases "l = x")
    case True
    then show ?thesis by (simp add: Contains_iff_sublist)
  next
    case False
    with 3 have "Contains (joinWith sep (y # ys)) l" by simp
    then have "sublist l (joinWith sep (y # ys))" by (simp add: Contains_iff_sublist)
    then obtain ps ss where "joinWith sep (y # ys) = ps @ l @ ss"
      by (auto simp: sublist_def)
    then have "joinWith sep (x # y # ys) = (x @ sep @ ps) @ l @ ss" by simp
    then have "sublist l (joinWith sep (x # y # ys))"
      unfolding sublist_def by blast
    then show ?thesis by (simp only: Contains_iff_sublist)
  qed
qed

lemma splitLoop_no_sep:
  "c \<notin> set s \<Longrightarrow> splitLoop [c] piece s = [piece @ s]"
  by (induction s arbitrary: piece) auto

lemma Split_no_sep: "c \<notin> set s \<Longrightarrow> Split s [c] = [s]"
  by (simp add: Split_def splitLoop_no_sep)

lemma splitLoop_one_sep:
  "c \<notin> set a \<Longrightarrow> c \<notin> set b \<Longrightarrow> splitLoop [c] piece (a @ c # b) = [piece @ a, b]"
  by (induction a arbitrary: piece) (auto simp: splitLoop_no_sep)

section \<open>Splitting and replacing in a joined text\<close>

lemma Contains_drop: "Contains (drop i s) sub \<Longrightarrow> Contains s sub"
proof -
  assume "Contains (drop i s) sub"
  then obtain ps ss where "drop i s = ps @ sub @ ss"
    by (auto simp: Contains_iff_sublist sublist_def)
  then have "s = (take i s @ ps) @ sub @ ss"
    by (metis append_take_drop_id append.assoc)
  then show ?thesis
    unfolding Contains_iff_sublist sublist_def by blast
qed

lemma prefix_Contains: "prefix sub s \<Longrightarrow> Contains s sub"
  unfolding Contains_iff_sublist by (auto simp: prefix_def)

lemma no_sep_inside:
  assumes nc: "\<not> Contains d (b @ [t])" and t: "t \<notin> set b" and i: "i < length d"
  shows "\<not> prefix (b @ [t]) (drop i d @ (b @ [t]) @ rest)"
proof
  let ?sep = "b @ [t]"
  let ?u = "drop i d"
  assume p: "prefix ?sep (?u @ ?sep @ rest)"
  have une: "?u \<noteq> []" using i by simp
  from p consider "prefix ?sep ?u" | w where "?sep = ?u @ w" "prefix w (?sep @ rest)"
    unfolding prefix_append by blast
  then show False
  proof cases
    case 1
    then have "Contains ?u ?sep" by (rule prefix_Contains)
    then have "Contains d ?sep" by (rule Contains_drop)
    with nc show False by simp
  next
    case 2
    have "length ?sep = length ?u + length w"
      using arg_cong [OF 2(1), of length] by simp
    with une have lt: "length w < length ?sep"
      by (cases ?u) auto
    from 2(2) have "prefix w ?sep \<or> (\<exists>vs. w = ?sep @ vs)"
      unfolding prefix_append by blast
    with lt have "prefix w ?sep" by auto
    with lt have wb: "prefix w b"
      unfolding prefix_snoc by auto
    show False
    proof (cases "w = []")
      case True
      with 2(1) have "prefix ?sep ?u" by simp
      then have "Contains ?u ?sep" by (rule prefix_Contains)
      then have "Contains d ?sep" by (rule Contains_drop)
      with nc show False by simp
    next
      case False
      then have "last w = last (?u @ w)" by simp
      also have "\<dots> = t" unfolding 2(1) [symmetric] by simp
      finally have "t \<in> set w" using False last_in_set by metis
      moreover from wb have "set w \<subseteq> set b" by (rule set_mono_prefix)
      ultimately show False using t by blast
    qed
  qed
qed

lemma splitLoop_last:
  "sep \<noteq> [] \<Longrightarrow> \<not> Contains d sep \<Longrightarrow> splitLoop sep piece d = [piece @ d]"
  by (induction d arbitrary: piece) auto

lemma splitLoop_sep:
  "sep \<noteq> [] \<Longrightarrow> splitLoop sep piece (sep @ rest) = piece # splitLoop sep [] rest"
  by (cases sep) auto

lemma splitLoop_doc:
  assumes "\<forall>i < length d. \<not> prefix sep (drop i d @ sep @ rest)" and "sep \<noteq> []"
  shows "splitLoop sep piece (d @ sep @ rest) = (piece @ d) # splitLoop sep [] rest"
  using assms(1)
proof (induction d arbitrary: piece)
  case Nil
  then show ?case using assms(2) by (simp add: splitLoop_sep)
next
  case (Cons x xs)
  from Cons.prems have "\<not> prefix sep (drop 0 (x # xs) @ sep @ rest)" by blast
  then have np: "\<not> prefix sep (x # xs @ sep @ rest)" by simp
  have "\<forall>i < length xs. \<not> prefix sep (drop i xs @ sep @ rest)"
  proof (intro allI impI)
    fix i assume "i < length xs"
    then have "Suc i < length (x # xs)" by simp
    with Cons.prems have "\<not> prefix sep (drop (Suc i) (x # xs) @ sep @ rest)" by blast
    then show "\<not> prefix sep (drop i xs @ sep @ rest)" by simp
  qed
  then have "splitLoop sep (piece @ [x]) (xs @ sep @ rest)
      = ((piece @ [x]) @ xs) # splitLoop sep [] rest"
    by (rule Cons.IH)
  with np show ?case by simp
qed

lemma splitLoop_joinWith:
  assumes "\<forall>d \<in> set (d0 # ds). \<not> Contains d (b @ [t])" and "t \<notin> set b"
  shows "splitLoop (b @ [t]) [] (joinWith (b @ [t]) (d0 # ds)) = d0 # ds"
  using assms(1)
proof (induction ds arbitrary: d0)
  case Nil
  then show ?case by (simp add: splitLoop_last)
next
  case (Cons d1 ds)
  let ?sep = "b @ [t]"
  have "\<forall>i < length d0. \<not> prefix ?sep (drop i d0 @ ?sep @ joinWith ?sep (d1 # ds))"
    using Cons.prems assms(2) no_sep_inside [of d0 b t] by simp
  then have "splitLoop ?sep [] (d0 @ ?sep @ joinWith ?sep (d1 # ds))
      = ([] @ d0) # splitLoop ?sep [] (joinWith ?sep (d1 # ds))"
    by (intro splitLoop_doc) simp_all
  moreover have "splitLoop ?sep [] (joinWith ?sep (d1 # ds)) = d1 # ds"
    using Cons.prems by (intro Cons.IH) simp
  ultimately show ?case by simp
qed


lemma replaceLoop_append:
  "noStraddle tok x \<Longrightarrow>
   replaceLoop tok new (d @ x) = replaceLoop tok new d @ replaceLoop tok new x"
proof (induction tok new d rule: replaceLoop.induct)
  case (1 old new)
  then show ?case by simp
next
  case (2 old new c cs)
  show ?case
  proof (cases "prefix old (c # cs)")
    case True
    then have le: "length old \<le> Suc (length cs)"
      using prefix_length_le by fastforce
    from True have p: "prefix old ((c # cs) @ x)" by (rule prefix_prefix)
    have "drop (length old - 1) (cs @ x) = drop (length old - 1) cs @ x"
      using le by simp
    with 2(1) [OF True] 2(3) True p show ?thesis by simp
  next
    case False
    have "\<not> prefix old ((c # cs) @ x)"
    proof
      assume "prefix old ((c # cs) @ x)"
      then consider "prefix old (c # cs)" | w where "old = (c # cs) @ w" "prefix w x"
        unfolding prefix_append by blast
      then show False
      proof cases
        case 1
        with False show False by simp
      next
        case 2
        show False
        proof (cases "w = []")
          case True
          with 2(1) False show False by simp
        next
          case wne: False
          with 2 \<open>noStraddle old x\<close> show False
            unfolding noStraddle_def by blast
        qed
      qed
    qed
    with 2(2) [OF False] 2(3) False show ?thesis by simp
  qed
qed

lemma noStraddle_token:
  "noStraddle ''namespace: calyptia-core'' (CHR ''-'' # CHR ''-'' # rest)"
  unfolding noStraddle_def
proof (intro allI impI, elim conjE)
  fix u w :: string
  assume u: "u \<noteq> []" and w: "w \<noteq> []" and eq: "''namespace: calyptia-core'' = u @ w"
  then have "suffix w ''namespace: calyptia-core''"
    by (simp add: suffix_def)
  then have "w \<in> set (suffixes ''namespace: calyptia-core'')"
    by (simp only: in_set_suffixes)
  with w show "\<not> prefix w (CHR ''-'' # CHR ''-'' # rest)"
    by auto
qed

lemma replaceLoop_separator:
  "replaceLoop ''namespace: calyptia-core'' new (documentSeparator @ rest)
     = documentSeparator @ replaceLoop ''namespace: calyptia-core'' new rest"
  by (simp add: documentSeparator_def)

lemma replaceLoop_joinWith:
  "replaceLoop ''namespace: calyptia-core'' new (joinWith documentSeparator ds)
     = joinWith documentSeparator (map (replaceLoop ''namespace: calyptia-core'' new) ds)"
proof (induction documentSeparator ds rule: joinWith.induct)
  case 1
  then show ?case by simp
next
  case (2 x)
  then show ?case by simp
next
  case (3 x y ys)
  have "noStraddle ''namespace: calyptia-core''
      (documentSeparator @ joinWith documentSeparator (y # ys))"
    using noStraddle_token by (simp add: documentSeparator_def)
  then have "replaceLoop ''namespace: calyptia-core'' new
        (x @ documentSeparator @ joinWith documentSeparator (y # ys))
      = replaceLoop ''namespace: calyptia-core'' new x
        @ replaceLoop ''namespace: calyptia-core'' new
            (documentSeparator @ joinWith documentSeparator (y # ys))"
    by (rule replaceLoop_append)
  with 3 show ?case by (simp add: replaceLoop_separator)
qed

lemma injectNamespace_Join:
  "injectNamespace (Join ds documentSeparator) ns
     = Join (map (\<lambda>d. injectNamespace d ns) ds) documentSeparator"
  by (simp add: injectNamespace_def ReplaceAll_def Join_def replaceLoop_joinWith)

lemma Split_Join:
  assumes "\<forall>d \<in> set (d0 # ds). \<not> Contains d documentSeparator"
  shows "Split (Join (d0 # ds) documentSeparator) documentSeparator = d0 # ds"
proof -
  have "splitLoop ([CHR ''-'', CHR ''-'', CHR ''-''] @ [CHR 0x0A]) []
          (joinWith ([CHR ''-'', CHR ''-'', CHR ''-''] @ [CHR 0x0A]) (d0 # ds)) = d0 # ds"
    using assms by (intro splitLoop_joinWith) (simp_all add: documentSeparator_def)
  then show ?thesis
    by (simp add: Split_def Join_def documentSeparator_def)
qed

lemma solveNamespaceCreation_strips:
  assumes "\<forall>d \<in> set (d0 # ds). \<not> Contains d documentSeparator"
  shows "solveNamespaceCreation False (Join (d0 # ds) documentSeparator) ns
     = Join ds documentSeparator"
  using Split_Join [OF assms] by (simp add: solveNamespaceCreation_def)

lemma addImage_no_version: "addImage img [] file = Inr file"
  by (simp add: addImage_def)

section \<open>Idempotence of injectNamespace\<close>

lemma quoteIfInteger_placeholder: "quoteIfInteger ''calyptia-core'' = ''calyptia-core''"
  by (simp add: quoteIfInteger_def Atoi_def isDigit_def)

text \<open>
  C5, as the code has it. Injecting a namespace twice gives the same text as
  injecting it once exactly when the inserted value is the placeholder
  \<open>calyptia-core\<close> itself, or the text injected once holds no token
  \<open>namespace: calyptia-core\<close> any more. So the namespace \<open>calyptia-core\<close> is an
  idempotent case (the replacement changes nothing), and the cases that are not
  idempotent are those where the first injection leaves or builds a new token, as
  a namespace that extends the placeholder does.
\<close>

theorem C5_injectNamespace_idempotent_iff:
  "injectNamespace (injectNamespace s n) n = injectNamespace s n \<longleftrightarrow>
     (quoteIfInteger n = ''calyptia-core''
      \<or> \<not> Contains (injectNamespace s n) ''namespace: calyptia-core'')"
  unfolding injectNamespace_def ReplaceAll_def
  by (simp add: replaceLoop_fixed_iff)

text \<open>
  The theorem at two inputs: the namespace \<open>prod\<close>, idempotent on this text, and
  the namespace \<open>calyptia-core-x\<close>, which is not.
\<close>

theorem C5_injectNamespace_idempotent_iff_witness:
  "injectNamespace (injectNamespace ''namespace: calyptia-core'' ''prod'') ''prod''
     = injectNamespace ''namespace: calyptia-core'' ''prod''
   \<and> injectNamespace ''namespace: calyptia-core'' ''prod'' = ''namespace: prod''
   \<and> injectNamespace (injectNamespace ''namespace: calyptia-core'' ''calyptia-core-x'')
         ''calyptia-core-x''
     \<noteq> injectNamespace ''namespace: calyptia-core'' ''calyptia-core-x''
   \<and> injectNamespace ''namespace: calyptia-core'' ''calyptia-core-x''
     = ''namespace: calyptia-core-x''"
proof -
  have a: "injectNamespace ''namespace: calyptia-core'' ''prod'' = ''namespace: prod''"
    by (simp add: injectNamespace_def ReplaceAll_def quoteIfInteger_def Atoi_def isDigit_def)
  have b: "injectNamespace ''namespace: calyptia-core'' ''calyptia-core-x''
      = ''namespace: calyptia-core-x''"
    by (simp add: injectNamespace_def ReplaceAll_def quoteIfInteger_def Atoi_def isDigit_def)
  have qa: "quoteIfInteger ''prod'' = ''prod''"
    by (simp add: quoteIfInteger_def Atoi_def isDigit_def)
  have qb: "quoteIfInteger ''calyptia-core-x'' = ''calyptia-core-x''"
    by (simp add: quoteIfInteger_def Atoi_def isDigit_def)
  have "injectNamespace (injectNamespace ''namespace: calyptia-core'' ''prod'') ''prod''
     = injectNamespace ''namespace: calyptia-core'' ''prod''"
    using C5_injectNamespace_idempotent_iff [of "''namespace: calyptia-core''" "''prod''"]
    by (simp add: a qa)
  moreover have "injectNamespace (injectNamespace ''namespace: calyptia-core'' ''calyptia-core-x'')
         ''calyptia-core-x''
     \<noteq> injectNamespace ''namespace: calyptia-core'' ''calyptia-core-x''"
    using C5_injectNamespace_idempotent_iff
      [of "''namespace: calyptia-core''" "''calyptia-core-x''"]
    by (simp add: b qb)
  ultimately show ?thesis using a b by simp
qed

text \<open>
  The claim names \<open>calyptia-core\<close> as the namespace for which the injection is not
  idempotent, and makes a namespace free of the placeholder a condition of
  idempotence. For that namespace the injection is idempotent on every text,
  although the namespace is the placeholder.
\<close>

theorem C5_placeholder_namespace_is_idempotent:
  "(\<forall>s. injectNamespace (injectNamespace s ''calyptia-core'') ''calyptia-core''
        = injectNamespace s ''calyptia-core'')
   \<and> Contains ''calyptia-core'' ''calyptia-core''"
  by (simp add: injectNamespace_def ReplaceAll_def quoteIfInteger_placeholder replaceLoop_same)

section \<open>Dry run\<close>

text \<open>
  C9. With \<open>dryRun\<close> every creation returns its request object with a \<open>nil\<close> error
  and sends nothing; the object returned is the very object that the same call
  without \<open>dryRun\<close> sends to the cluster.
\<close>

theorem C9_dry_run_returns_request:
  "(\<exists>req. CreateSecret api client agg True = (Inr req, [])
       \<and> snd (CreateSecret api client agg False) = [CreateSecretCall (clientNamespace client) req])
   \<and> (\<exists>req. CreateSecretOperatorRSAKey api client agg True = (Inr req, [])
       \<and> snd (CreateSecretOperatorRSAKey api client agg False)
           = [CreateSecretCall (clientNamespace client) req])
   \<and> (\<exists>req. CreateServiceAccount api client agg True = (Inr req, [])
       \<and> snd (CreateServiceAccount api client agg False)
           = [CreateServiceAccountCall (clientNamespace client) req])
   \<and> (\<exists>req. CreateClusterRole api client agg True opts = (Inr req, [])
       \<and> snd (CreateClusterRole api client agg False opts) = [CreateClusterRoleCall req])
   \<and> (\<exists>req. CreateClusterRoleBinding api client agg clusterRole serviceAccount True = (Inr req, [])
       \<and> snd (CreateClusterRoleBinding api client agg clusterRole serviceAccount False)
           = [CreateClusterRoleBindingCall req])
   \<and> (\<exists>req. CreateDeployment api client imageRef agg url serviceAccount tls skip True = (Inr req, [])
       \<and> snd (CreateDeployment api client imageRef agg url serviceAccount tls skip False)
           = [CreateDeploymentCall (clientNamespace client) req])"
  by (simp add: CreateSecret_def CreateSecretOperatorRSAKey_def CreateServiceAccount_def
      CreateClusterRole_def CreateClusterRoleBinding_def CreateDeployment_def Let_def)

theorem C9_dry_run_returns_request_witness:
  "CreateServiceAccount (sampleApi []) sampleClient sampleInstance True
     = (Inr \<lparr>accountTypeMeta = \<lparr>kind = ''ServiceAccount'', apiVersion = ''v1''\<rparr>,
             accountObjectMeta = \<lparr>metaName = ''calyptia-core-default-service-account'',
               metaNamespace = [], metaLabels = [(''calyptia_aggregator_name'', ''core'')]\<rparr>\<rparr>, [])
   \<and> snd (CreateServiceAccount (sampleApi []) sampleClient sampleInstance False)
     = [CreateServiceAccountCall ''default''
          \<lparr>accountTypeMeta = \<lparr>kind = ''ServiceAccount'', apiVersion = ''v1''\<rparr>,
           accountObjectMeta = \<lparr>metaName = ''calyptia-core-default-service-account'',
             metaNamespace = [], metaLabels = [(''calyptia_aggregator_name'', ''core'')]\<rparr>\<rparr>]"
  using C9_dry_run_returns_request
    [of "sampleApi []" sampleClient sampleInstance]
  by (simp add: CreateServiceAccount_def getObjectMeta_def sampleClient_def sampleInstance_def
      HasPrefix_def defaultObjectMetaNamePrefix_def)

section \<open>Deletion is idempotent\<close>

lemma deleteByLabel_ok:
  "deleteCollection api k ns label = None \<or> deleteCollection api k ns label = Some NotFound
   \<Longrightarrow> fst (deleteByLabel api k label ns) = None"
  by (auto simp: deleteByLabel_def IsNotFound_def)

lemma deleteSteps_ok:
  "\<forall>k ns n. deleteObject api k ns n = None \<or> deleteObject api k ns n = Some NotFound
   \<Longrightarrow> fst (deleteSteps api steps) = None"
proof (induction steps)
  case Nil
  then show ?case by simp
next
  case (Cons step steps)
  obtain k ns n where step: "step = (k, ns, n)" by (cases step)
  from Cons.prems have "deleteObject api k ns n = None \<or> deleteObject api k ns n = Some NotFound"
    by blast
  moreover from Cons have "fst (deleteSteps api steps) = None" by simp
  ultimately show ?case
    unfolding step by (auto simp: IsNotFound_def Let_def split: prod.splits)
qed

lemma deleteInNamespaces_ok:
  assumes "\<forall>k ns n. deleteObject api k ns n = None \<or> deleteObject api k ns n = Some NotFound"
    and "shouldWait \<longrightarrow> (\<forall>ns \<in> set nss. pollGone (getAfterDelete api ns (coreDeployment core)))"
  shows "fst (deleteInNamespaces api core shouldWait nss) = Return None"
  using assms(2)
proof (induction nss)
  case Nil
  then show ?case by simp
next
  case (Cons ns nss)
  let ?steps = "[(Deployments, ns, coreDeployment core), (Secrets, ns, coreSecret core),
              (ClusterRoles, [], coreClusterRole core),
              (ClusterRoleBindings, [], coreClusterRoleBinding core),
              (ServiceAccounts, ns, coreServiceAccount core)]"
  have "fst (deleteSteps api ?steps) = None"
    using assms(1) by (rule deleteSteps_ok)
  then obtain calls where s: "deleteSteps api ?steps = (None, calls)"
    by (cases "deleteSteps api ?steps") auto
  from Cons have "fst (deleteInNamespaces api core shouldWait nss) = Return None" by simp
  then obtain calls' where r: "deleteInNamespaces api core shouldWait nss = (Return None, calls')"
    by (cases "deleteInNamespaces api core shouldWait nss") auto
  from Cons.prems have "shouldWait \<longrightarrow> pollGone (getAfterDelete api ns (coreDeployment core))"
    by simp
  then show ?case
    using s r by (auto simp del: deleteSteps.simps)
qed

text \<open>
  C4. Each delete by label returns \<open>nil\<close> when its \<open>DeleteCollection\<close> answers
  \<open>nil\<close> (nothing matched, or all deleted) or "not found"; and
  \<open>DeleteCoreInstance\<close> returns \<open>nil\<close> when the namespaces can be listed and every
  deletion of a named object answers \<open>nil\<close> or "not found" (with \<open>shouldWait\<close>,
  when also a poll of each namespace sees the deployment gone within the minute).
\<close>

theorem C4_delete_not_found_is_success:
  "(deleteCollection api Deployments ns label \<in> {None, Some NotFound}
      \<longrightarrow> fst (DeleteDeploymentByLabel api label ns) = None)
   \<and> (deleteCollection api DaemonSets ns label \<in> {None, Some NotFound}
      \<longrightarrow> fst (DeleteDaemonSetByLabel api label ns) = None)
   \<and> (deleteCollection api ClusterRoles [] label \<in> {None, Some NotFound}
      \<longrightarrow> fst (DeleteClusterRoleByLabel api label) = None)
   \<and> (deleteCollection api ClusterRoleBindings [] label \<in> {None, Some NotFound}
      \<longrightarrow> fst (DeleteRoleBindingByLabel api label) = None)
   \<and> (deleteCollection api ServiceAccounts ns label \<in> {None, Some NotFound}
      \<longrightarrow> fst (DeleteServiceAccountByLabel api label ns) = None)
   \<and> (deleteCollection api Secrets ns label \<in> {None, Some NotFound}
      \<longrightarrow> fst (DeleteSecretByLabel api label ns) = None)
   \<and> (deleteCollection api ConfigMaps ns label \<in> {None, Some NotFound}
      \<longrightarrow> fst (DeleteConfigMapsByLabel api label ns) = None)
   \<and> (listNamespaces api = Inr nss
       \<and> (\<forall>k ns n. deleteObject api k ns n \<in> {None, Some NotFound})
       \<and> (shouldWait \<longrightarrow> (\<forall>ns \<in> set nss.
             pollGone (getAfterDelete api ns (FormatResourceName [name, environment, ''sync'']))))
      \<longrightarrow> fst (DeleteCoreInstance api name environment shouldWait) = Return None)"
proof -
  have del: "fst (DeleteCoreInstance api name environment shouldWait) = Return None"
    if ns: "listNamespaces api = Inr nss"
      and ok: "\<forall>k ns n. deleteObject api k ns n \<in> {None, Some NotFound}"
      and w: "shouldWait \<longrightarrow> (\<forall>ns \<in> set nss.
             pollGone (getAfterDelete api ns (FormatResourceName [name, environment, ''sync''])))"
  proof -
    define core where "core = \<lparr>coreSecret = FormatResourceName [name, environment, ''secret''],
                  coreServiceAccount = FormatResourceName [name, environment, ''service-account''],
                  coreClusterRole = FormatResourceName [name, environment, ''cluster-role''],
                  coreClusterRoleBinding =
                    FormatResourceName [name, environment, ''cluster-role-binding''],
                  coreDeployment = FormatResourceName [name, environment, ''sync'']\<rparr>"
    have "fst (deleteInNamespaces api core shouldWait nss) = Return None"
      using ok w by (intro deleteInNamespaces_ok) (auto simp: core_def)
    then show ?thesis
      using ns unfolding DeleteCoreInstance_def core_def [symmetric] Let_def
      by (cases "deleteInNamespaces api core shouldWait nss") simp
  qed
  show ?thesis
    using del
    by (simp add: DeleteDeploymentByLabel_def DeleteDaemonSetByLabel_def
        DeleteClusterRoleByLabel_def DeleteRoleBindingByLabel_def
        DeleteServiceAccountByLabel_def DeleteSecretByLabel_def DeleteConfigMapsByLabel_def
        deleteByLabel_ok)
qed

theorem C4_delete_not_found_is_success_witness:
  "fst (DeleteDeploymentByLabel (sampleApi []) ''app=core'' ''default'') = None
   \<and> fst (DeleteDaemonSetByLabel (sampleApi []) ''app=core'' ''default'') = None
   \<and> fst (DeleteClusterRoleByLabel (sampleApi []) ''app=core'') = None
   \<and> fst (DeleteRoleBindingByLabel (sampleApi []) ''app=core'') = None
   \<and> fst (DeleteServiceAccountByLabel (sampleApi []) ''app=core'' ''default'') = None
   \<and> fst (DeleteSecretByLabel (sampleApi []) ''app=core'' ''default'') = None
   \<and> fst (DeleteConfigMapsByLabel (sampleApi []) ''app=core'' ''default'') = None
   \<and> fst (DeleteCoreInstance (sampleApi []) ''core'' ''default'' True) = Return None"
  using C4_delete_not_found_is_success
    [of "sampleApi []" "''default''" "''app=core''" "[''default'', ''calyptia-core'']" True
        "''core''" "''default''"]
  by (simp add: sampleApi_def)

section \<open>Single-deployment updates\<close>

lemma updateRolloutWait_targets:
  assumes "list_all (targets client d) calls"
    and "d' = d\<lparr>templateContainers := cs\<rparr>"
  shows "list_all (targets client d) (snd (updateRolloutWait api client d' verbose calls))"
  using assms
  by (auto simp: updateRolloutWait_def rolloutDeployment_def waitFor_def Let_def
      split: option.splits prod.splits)

lemma updateRolloutWait_sends:
  "UpdateDeploymentCall (clientNamespace client) d'
     \<in> set (snd (updateRolloutWait api client d' verbose calls))"
  by (auto simp: updateRolloutWait_def rolloutDeployment_def waitFor_def Let_def
      split: option.splits prod.splits)

lemma list_ex_update:
  "UpdateDeploymentCall ns d \<in> set calls \<Longrightarrow>
   list_ex (\<lambda>c. case c of UpdateDeploymentCall ns d' \<Rightarrow> True | _ \<Rightarrow> False) calls"
  by (force simp: list_ex_iff)

lemma UpdateDeploymentByLabel_zero:
  "listDeployments api (clientNamespace client) label = Inr [] \<Longrightarrow>
   zeroMatch (clientNamespace client) label (UpdateDeploymentByLabel api client label newImage tlsVerify)"
  by (simp add: UpdateDeploymentByLabel_def FindDeploymentByLabel_def zeroMatch_def)

lemma UpdateSync_zero:
  "listDeployments api (clientNamespace client) label = Inr [] \<Longrightarrow>
   zeroMatch (clientNamespace client) label
     (UpdateSyncDeploymentByLabel api client defaults label newImage tlsVerify verbose)"
  by (simp add: UpdateSyncDeploymentByLabel_def FindDeploymentByLabel_def zeroMatch_def)

lemma UpdateOperator_zero:
  "listDeployments api (clientNamespace client) label = Inr [] \<Longrightarrow>
   zeroMatch (clientNamespace client) label
     (UpdateOperatorDeploymentByLabel api client label newImage verbose)"
  by (simp add: UpdateOperatorDeploymentByLabel_def FindDeploymentByLabel_def zeroMatch_def)

lemma UpdateDeploymentByLabel_first:
  "listDeployments api (clientNamespace client) label = Inr (d # ds) \<Longrightarrow>
   firstMatch client d (UpdateDeploymentByLabel api client label newImage tlsVerify)"
  by (auto simp: UpdateDeploymentByLabel_def FindDeploymentByLabel_def firstMatch_def Let_def
      split: prod.splits)

lemma UpdateSync_first:
  assumes "listDeployments api (clientNamespace client) label = Inr (d # ds)"
  shows "firstMatch client d
     (UpdateSyncDeploymentByLabel api client defaults label newImage tlsVerify verbose)"
proof (cases "templateContainers d = []")
  case True
  with assms show ?thesis
    by (simp add: UpdateSyncDeploymentByLabel_def FindDeploymentByLabel_def firstMatch_def)
next
  case False
  let ?d' = "d\<lparr>templateContainers := syncContainers defaults newImage tlsVerify (templateContainers d)\<rparr>"
  let ?calls = "[ListDeploymentsCall (clientNamespace client) label]"
  have r: "UpdateSyncDeploymentByLabel api client defaults label newImage tlsVerify verbose
      = updateRolloutWait api client ?d' verbose ?calls"
    using assms False
    by (simp add: UpdateSyncDeploymentByLabel_def FindDeploymentByLabel_def Let_def)
  have "list_all (targets client d) (snd (updateRolloutWait api client ?d' verbose ?calls))"
    by (rule updateRolloutWait_targets) simp_all
  moreover have "list_ex (\<lambda>c. case c of UpdateDeploymentCall ns d' \<Rightarrow> True | _ \<Rightarrow> False)
      (snd (updateRolloutWait api client ?d' verbose ?calls))"
    using updateRolloutWait_sends by (rule list_ex_update)
  ultimately show ?thesis using False by (simp add: firstMatch_def r)
qed

lemma UpdateOperator_first:
  assumes "listDeployments api (clientNamespace client) label = Inr (d # ds)"
  shows "firstMatch client d
     (UpdateOperatorDeploymentByLabel api client label newImage verbose)"
proof (cases "templateContainers d = []")
  case True
  with assms show ?thesis
    by (simp add: UpdateOperatorDeploymentByLabel_def FindDeploymentByLabel_def firstMatch_def)
next
  case False
  let ?d' = "d\<lparr>templateContainers := setImage newImage (templateContainers d)\<rparr>"
  let ?calls = "[ListDeploymentsCall (clientNamespace client) label]"
  have r: "UpdateOperatorDeploymentByLabel api client label newImage verbose
      = updateRolloutWait api client ?d' verbose ?calls"
    using assms False
    by (simp add: UpdateOperatorDeploymentByLabel_def FindDeploymentByLabel_def Let_def)
  have "list_all (targets client d) (snd (updateRolloutWait api client ?d' verbose ?calls))"
    by (rule updateRolloutWait_targets) simp_all
  moreover have "list_ex (\<lambda>c. case c of UpdateDeploymentCall ns d' \<Rightarrow> True | _ \<Rightarrow> False)
      (snd (updateRolloutWait api client ?d' verbose ?calls))"
    using updateRolloutWait_sends by (rule list_ex_update)
  ultimately show ?thesis using False by (simp add: firstMatch_def r)
qed

text \<open>
  C7. For each of \<open>UpdateDeploymentByLabel\<close>, \<open>UpdateSyncDeploymentByLabel\<close> and
  \<open>UpdateOperatorDeploymentByLabel\<close>: when the listing is empty the result is the
  error "no deployment found" and the only request sent is the listing, so
  nothing in the cluster is changed; when the listing is not empty, every
  changing request is about its first element (the update carries that
  deployment with only its containers changed, the patch its namespace and
  name), and the update is sent unless that deployment has no container.
\<close>

theorem C7_update_zero_or_first:
  "(listDeployments api (clientNamespace client) label = Inr [] \<longrightarrow>
      zeroMatch (clientNamespace client) label
        (UpdateDeploymentByLabel api client label newImage tlsVerify)
      \<and> zeroMatch (clientNamespace client) label
        (UpdateSyncDeploymentByLabel api client defaults label newImage tlsVerify verbose)
      \<and> zeroMatch (clientNamespace client) label
        (UpdateOperatorDeploymentByLabel api client label newImage verbose))
   \<and> (listDeployments api (clientNamespace client) label = Inr (d # ds) \<longrightarrow>
      firstMatch client d (UpdateDeploymentByLabel api client label newImage tlsVerify)
      \<and> firstMatch client d
        (UpdateSyncDeploymentByLabel api client defaults label newImage tlsVerify verbose)
      \<and> firstMatch client d
        (UpdateOperatorDeploymentByLabel api client label newImage verbose))"
  by (simp add: UpdateDeploymentByLabel_zero UpdateSync_zero UpdateOperator_zero
      UpdateDeploymentByLabel_first UpdateSync_first UpdateOperator_first)

theorem C7_update_zero_or_first_witness:
  "UpdateDeploymentByLabel (sampleApi []) sampleClient ''app=core'' ''img:v2'' ''true''
     = (Some (Errorf ''no deployment found with label app=core''),
        [ListDeploymentsCall ''default'' ''app=core''])
   \<and> UpdateSyncDeploymentByLabel (sampleApi []) sampleClient sampleDefaults ''app=core'' ''v2'' ''true'' False
     = (Some (Errorf ''no deployment found with label app=core''),
        [ListDeploymentsCall ''default'' ''app=core''])
   \<and> UpdateOperatorDeploymentByLabel (sampleApi []) sampleClient ''app=core'' ''img:v2'' False
     = (Some (Errorf ''no deployment found with label app=core''),
        [ListDeploymentsCall ''default'' ''app=core''])
   \<and> firstMatch sampleClient
        (sampleDeployment ''default'' ''first'' [sampleContainer ''manager'' ''img:v1'' []])
        (UpdateOperatorDeploymentByLabel
           (sampleApi [sampleDeployment ''default'' ''first'' [sampleContainer ''manager'' ''img:v1'' []],
                       sampleDeployment ''default'' ''second'' [sampleContainer ''manager'' ''img:v1'' []]])
           sampleClient ''app=core'' ''img:v2'' False)
   \<and> snd (UpdateOperatorDeploymentByLabel
           (sampleApi [sampleDeployment ''default'' ''first'' [sampleContainer ''manager'' ''img:v1'' []],
                       sampleDeployment ''default'' ''second'' [sampleContainer ''manager'' ''img:v1'' []]])
           sampleClient ''app=core'' ''img:v2'' False) ! 1
     = UpdateDeploymentCall ''default''
         (sampleDeployment ''default'' ''first'' [sampleContainer ''manager'' ''img:v2'' []])"
proof -
  let ?d1 = "sampleDeployment ''default'' ''first'' [sampleContainer ''manager'' ''img:v1'' []]"
  let ?d2 = "sampleDeployment ''default'' ''second'' [sampleContainer ''manager'' ''img:v1'' []]"
  have l0: "listDeployments (sampleApi []) (clientNamespace sampleClient) ''app=core'' = Inr []"
    by (simp add: sampleApi_def)
  have l2: "listDeployments (sampleApi [?d1, ?d2]) (clientNamespace sampleClient) ''app=core''
      = Inr (?d1 # [?d2])"
    by (simp add: sampleApi_def)
  have ns: "clientNamespace sampleClient = ''default''"
    by (simp add: sampleClient_def)
  from l0 C7_update_zero_or_first
    [where api = "sampleApi []" and client = sampleClient and label = "''app=core''"
       and newImage = "''img:v2''" and tlsVerify = "''true''" and defaults = sampleDefaults
       and verbose = False]
  have "zeroMatch ''default'' ''app=core''
          (UpdateDeploymentByLabel (sampleApi []) sampleClient ''app=core'' ''img:v2'' ''true'')"
    by (simp add: ns)
  then have a: "UpdateDeploymentByLabel (sampleApi []) sampleClient ''app=core'' ''img:v2'' ''true''
     = (Some (Errorf ''no deployment found with label app=core''),
        [ListDeploymentsCall ''default'' ''app=core''])"
    by (simp add: zeroMatch_def noDeploymentFound_def prod_eq_iff)
  from l0 C7_update_zero_or_first
    [where api = "sampleApi []" and client = sampleClient and label = "''app=core''"
       and newImage = "''v2''" and tlsVerify = "''true''" and defaults = sampleDefaults
       and verbose = False]
  have "zeroMatch ''default'' ''app=core''
          (UpdateSyncDeploymentByLabel (sampleApi []) sampleClient sampleDefaults ''app=core'' ''v2'' ''true'' False)"
    by (simp add: ns)
  then have b: "UpdateSyncDeploymentByLabel (sampleApi []) sampleClient sampleDefaults ''app=core'' ''v2'' ''true'' False
     = (Some (Errorf ''no deployment found with label app=core''),
        [ListDeploymentsCall ''default'' ''app=core''])"
    by (simp add: zeroMatch_def noDeploymentFound_def prod_eq_iff)
  from l0 C7_update_zero_or_first
    [where api = "sampleApi []" and client = sampleClient and label = "''app=core''"
       and newImage = "''img:v2''" and tlsVerify = "''true''" and defaults = sampleDefaults
       and verbose = False]
  have "zeroMatch ''default'' ''app=core''
          (UpdateOperatorDeploymentByLabel (sampleApi []) sampleClient ''app=core'' ''img:v2'' False)"
    by (simp add: ns)
  then have c: "UpdateOperatorDeploymentByLabel (sampleApi []) sampleClient ''app=core'' ''img:v2'' False
     = (Some (Errorf ''no deployment found with label app=core''),
        [ListDeploymentsCall ''default'' ''app=core''])"
    by (simp add: zeroMatch_def noDeploymentFound_def prod_eq_iff)
  from l2 C7_update_zero_or_first
    [where api = "sampleApi [?d1, ?d2]" and client = sampleClient and label = "''app=core''"
       and d = ?d1 and ds = "[?d2]" and newImage = "''img:v2''" and tlsVerify = "''true''"
       and defaults = sampleDefaults and verbose = False]
  have d: "firstMatch sampleClient ?d1
        (UpdateOperatorDeploymentByLabel (sampleApi [?d1, ?d2]) sampleClient ''app=core'' ''img:v2'' False)"
    by simp
  have e: "snd (UpdateOperatorDeploymentByLabel (sampleApi [?d1, ?d2]) sampleClient
              ''app=core'' ''img:v2'' False) ! 1
     = UpdateDeploymentCall ''default''
         (sampleDeployment ''default'' ''first'' [sampleContainer ''manager'' ''img:v2'' []])"
    by (simp add: UpdateOperatorDeploymentByLabel_def FindDeploymentByLabel_def sampleApi_def
        sampleClient_def sampleDeployment_def sampleContainer_def setImage_def
        updateRolloutWait_def rolloutDeployment_def waitFor_def Let_def WaitReady_def
        PollUntilContextTimeout_def isDeploymentReady_def sampleView_def PodRunning_def)
  from a b c d e show ?thesis by simp
qed

section \<open>Install-state inspector: residue\<close>

lemma deploymentsLoop_eq:
  "deploymentsLoop items errors = errors
     @ map (\<lambda>(ns, name). ''Operator pod: '' @ ns @ ''/'' @ name)
         (filter (\<lambda>(ns, name). name = operatorDeploymentName) items)"
  by (induction items errors rule: deploymentsLoop.induct) auto

lemma accountsLoop_eq:
  "accountsLoop items errors = errors
     @ map (\<lambda>(ns, name). ''ServiceAccount: '' @ ns @ ''/'' @ name)
         (filter (\<lambda>(ns, name). name = operatorDeploymentName) items)"
  by (induction items errors rule: accountsLoop.induct) auto

lemma clusterRoleStep_eq:
  "clusterRoleStep name errors = errors
     @ (if name \<in> set wellKnownClusterRoles then [''ClusterRole: '' @ name] else [])"
  by (auto simp: clusterRoleStep_def wellKnownClusterRoles_def Let_def)

lemma clusterRolesLoop_eq:
  "clusterRolesLoop items errors = errors
     @ map (\<lambda>name. ''ClusterRole: '' @ name)
         (filter (\<lambda>name. name \<in> set wellKnownClusterRoles) items)"
  by (induction items errors rule: clusterRolesLoop.induct) (simp_all add: clusterRoleStep_eq)

lemma bindingStep_eq:
  "bindingStep name errors = errors
     @ (if name \<in> set wellKnownClusterRoleBindings then [''ClusterRoleBinding: '' @ name] else [])"
  by (auto simp: bindingStep_def wellKnownClusterRoleBindings_def Let_def)

lemma bindingsLoop_eq:
  "bindingsLoop items errors = errors
     @ map (\<lambda>name. ''ClusterRoleBinding: '' @ name)
         (filter (\<lambda>name. name \<in> set wellKnownClusterRoleBindings) items)"
  by (induction items errors rule: bindingsLoop.induct) (simp_all add: bindingStep_eq)

lemma map_filter_Nil_iff: "map f (filter P xs) = [] \<longleftrightarrow> (\<forall>x \<in> set xs. \<not> P x)"
  by (simp add: filter_empty_conv)

lemma residueLines_empty_iff:
  "residueLines crd deployments roles bindings accounts = [] \<longleftrightarrow>
     \<not> crd \<and> (\<forall>(ns, name) \<in> set deployments. name \<noteq> operatorDeploymentName)
     \<and> (\<forall>name \<in> set roles. name \<notin> set wellKnownClusterRoles)
     \<and> (\<forall>name \<in> set bindings. name \<notin> set wellKnownClusterRoleBindings)
     \<and> (\<forall>(ns, name) \<in> set accounts. name \<noteq> operatorDeploymentName)"
proof -
  have c: "(if crd then [''CustomResourceDefinition Pipeline installed''] else []) = []
      \<longleftrightarrow> \<not> crd"
    by simp
  show ?thesis
    unfolding residueLines_def append_is_Nil_conv map_filter_Nil_iff c
    by (simp only: split_def)
qed

lemma IsOperatorInstalled_eq:
  assumes "newDynamicClient cluster = None" "newK8sClient cluster = None"
    "deploymentList cluster = Inr deployments" "clusterRoleList cluster = Inr roles"
    "clusterRoleBindingList cluster = Inr bindings" "serviceAccountList cluster = Inr accounts"
  shows "IsOperatorInstalled cluster =
     (let errors = residueLines (pipelinesList cluster = None) deployments roles bindings accounts
      in if errors = [] then Return (False, None)
         else Return (True, Some (OperatorIncompleteError errors)))"
proof -
  define errors where
    "errors = residueLines (pipelinesList cluster = None) deployments roles bindings accounts"
  have "accountsLoop accounts (bindingsLoop bindings (clusterRolesLoop roles
          (deploymentsLoop deployments
            (if pipelinesList cluster = None
             then [''CustomResourceDefinition Pipeline installed''] else []))))
        = errors"
    unfolding errors_def residueLines_def deploymentsLoop_eq clusterRolesLoop_eq
      bindingsLoop_eq accountsLoop_eq by (simp only: append_assoc)
  then have "IsOperatorInstalled cluster =
      (if length errors > 0 then Return (True, Some (OperatorIncompleteError errors))
       else Return (False, None))"
    unfolding IsOperatorInstalled_def Let_def using assms
    by (simp only: option.case sum.case not_None_eq simp_thms if_False)
  also have "\<dots> = (if errors = [] then Return (False, None)
         else Return (True, Some (OperatorIncompleteError errors)))"
    by (cases "errors = []") simp_all
  finally show ?thesis
    unfolding errors_def Let_def .
qed
lemma residueLines_crd:
  "''CustomResourceDefinition Pipeline installed''
     \<in> set (residueLines True deployments roles bindings accounts)"
  unfolding residueLines_def by simp

lemma residueLines_deployment:
  assumes "(ns, operatorDeploymentName) \<in> set deployments"
  shows "''Operator pod: '' @ ns @ ''/'' @ operatorDeploymentName
     \<in> set (residueLines crd deployments roles bindings accounts)"
proof -
  let ?f = "\<lambda>(ns, name). ''Operator pod: '' @ ns @ ''/'' @ name"
  from assms have "(ns, operatorDeploymentName)
      \<in> set (filter (\<lambda>(ns, name). name = operatorDeploymentName) deployments)"
    by simp
  then have "?f (ns, operatorDeploymentName)
      \<in> set (map ?f (filter (\<lambda>(ns, name). name = operatorDeploymentName) deployments))"
    by (simp only: set_map image_eqI)
  then show ?thesis
    unfolding residueLines_def set_append by simp
qed

lemma residueLines_role:
  assumes "name \<in> set roles" "name \<in> set wellKnownClusterRoles"
  shows "''ClusterRole: '' @ name \<in> set (residueLines crd deployments roles bindings accounts)"
proof -
  from assms have "name \<in> set (filter (\<lambda>name. name \<in> set wellKnownClusterRoles) roles)"
    by simp
  then have "''ClusterRole: '' @ name \<in> set (map (\<lambda>name. ''ClusterRole: '' @ name)
      (filter (\<lambda>name. name \<in> set wellKnownClusterRoles) roles))"
    by (simp only: set_map image_eqI)
  then show ?thesis
    unfolding residueLines_def set_append by blast
qed

lemma residueLines_binding:
  assumes "name \<in> set bindings" "name \<in> set wellKnownClusterRoleBindings"
  shows "''ClusterRoleBinding: '' @ name
     \<in> set (residueLines crd deployments roles bindings accounts)"
proof -
  from assms have
    "name \<in> set (filter (\<lambda>name. name \<in> set wellKnownClusterRoleBindings) bindings)"
    by simp
  then have "''ClusterRoleBinding: '' @ name \<in> set (map (\<lambda>name. ''ClusterRoleBinding: '' @ name)
      (filter (\<lambda>name. name \<in> set wellKnownClusterRoleBindings) bindings))"
    by (simp only: set_map image_eqI)
  then show ?thesis
    unfolding residueLines_def set_append by blast
qed

lemma residueLines_account:
  assumes "(ns, operatorDeploymentName) \<in> set accounts"
  shows "''ServiceAccount: '' @ ns @ ''/'' @ operatorDeploymentName
     \<in> set (residueLines crd deployments roles bindings accounts)"
proof -
  let ?f = "\<lambda>(ns, name). ''ServiceAccount: '' @ ns @ ''/'' @ name"
  from assms have "(ns, operatorDeploymentName)
      \<in> set (filter (\<lambda>(ns, name). name = operatorDeploymentName) accounts)"
    by simp
  then have "?f (ns, operatorDeploymentName)
      \<in> set (map ?f (filter (\<lambda>(ns, name). name = operatorDeploymentName) accounts))"
    by (simp only: set_map image_eqI)
  then show ?thesis
    unfolding residueLines_def set_append by simp
qed

lemma residueLines_enumerates:
  "enumerates (residueLines crd deployments roles bindings accounts)
     crd deployments roles bindings accounts"
proof -
  let ?errors = "residueLines crd deployments roles bindings accounts"
  have "crd \<longrightarrow> ''CustomResourceDefinition Pipeline installed'' \<in> set ?errors"
    using residueLines_crd by simp
  moreover have "\<forall>(ns, name) \<in> set deployments. name = operatorDeploymentName \<longrightarrow>
             ''Operator pod: '' @ ns @ ''/'' @ name \<in> set ?errors"
    using residueLines_deployment by blast
  moreover have "\<forall>name \<in> set roles. name \<in> set wellKnownClusterRoles \<longrightarrow>
             ''ClusterRole: '' @ name \<in> set ?errors"
    using residueLines_role by blast
  moreover have "\<forall>name \<in> set bindings. name \<in> set wellKnownClusterRoleBindings \<longrightarrow>
             ''ClusterRoleBinding: '' @ name \<in> set ?errors"
    using residueLines_binding by blast
  moreover have "\<forall>(ns, name) \<in> set accounts. name = operatorDeploymentName \<longrightarrow>
             ''ServiceAccount: '' @ ns @ ''/'' @ name \<in> set ?errors"
    using residueLines_account by blast
  moreover have "\<forall>line \<in> set ?errors. Contains (errorMessage (OperatorIncompleteError ?errors)) line"
    by (simp add: Join_def joinWith_Contains)
  ultimately show ?thesis
    unfolding enumerates_def by blast
qed

text \<open>
  C3. On a cluster whose client can be built and whose listings succeed,
  \<open>IsOperatorInstalled\<close> returns \<open>(false, nil)\<close> when the cluster is free of
  residue, and otherwise \<open>(true, e)\<close> where \<open>e\<close> is an \<open>OperatorIncompleteError\<close>
  with at least one message that enumerates the residue: a message for every
  residue object, each a part of the text of \<open>e\<close>. So the aggregate is not empty
  exactly when there is residue.
\<close>

theorem C3_IsOperatorInstalled_residue:
  assumes "newDynamicClient cluster = None" and "newK8sClient cluster = None"
    and "deploymentList cluster = Inr deployments" and "clusterRoleList cluster = Inr roles"
    and "clusterRoleBindingList cluster = Inr bindings"
    and "serviceAccountList cluster = Inr accounts"
  shows "if residueFree (pipelinesList cluster = None) deployments roles bindings accounts
         then IsOperatorInstalled cluster = Return (False, None)
         else (\<exists>errors. IsOperatorInstalled cluster
                   = Return (True, Some (OperatorIncompleteError errors))
                 \<and> errors \<noteq> []
                 \<and> enumerates errors (pipelinesList cluster = None)
                      deployments roles bindings accounts)"
proof -
  let ?errors = "residueLines (pipelinesList cluster = None) deployments roles bindings accounts"
  have free: "residueFree (pipelinesList cluster = None) deployments roles bindings accounts
      \<longleftrightarrow> ?errors = []"
    unfolding residueFree_def residueLines_empty_iff ..
  have eq: "IsOperatorInstalled cluster =
     (if ?errors = [] then Return (False, None)
      else Return (True, Some (OperatorIncompleteError ?errors)))"
    using IsOperatorInstalled_eq [OF assms] unfolding Let_def .
  show ?thesis
  proof (cases "?errors = []")
    case True
    with free eq show ?thesis by simp
  next
    case False
    with free eq residueLines_enumerates [of "pipelinesList cluster = None" deployments roles bindings accounts]
    show ?thesis by auto
  qed
qed

text \<open>
  The theorem on a cluster without residue, and on one that holds the operator's
  deployment and one well-known cluster role.
\<close>

theorem C3_IsOperatorInstalled_residue_witness:
  "IsOperatorInstalled (sampleCluster [(''default'', ''web'')] [''view'']) = Return (False, None)
   \<and> IsOperatorInstalled
         (sampleCluster [(''default'', ''web''), (''calyptia-core'', ''calyptia-core-controller-manager'')]
            [''calyptia-core-pod-role'', ''view''])
       = Return (True, Some (OperatorIncompleteError
           [''Operator pod: calyptia-core/calyptia-core-controller-manager'',
            ''ClusterRole: calyptia-core-pod-role'']))
   \<and> errorMessage (OperatorIncompleteError
           [''Operator pod: calyptia-core/calyptia-core-controller-manager'',
            ''ClusterRole: calyptia-core-pod-role''])
       = ''Operator pod: calyptia-core/calyptia-core-controller-manager''
           @ [CHR 0x0A] @ ''ClusterRole: calyptia-core-pod-role''"
proof -
  let ?clean = "sampleCluster [(''default'', ''web'')] [''view'']"
  let ?deps = "[(''default'', ''web''), (''calyptia-core'', ''calyptia-core-controller-manager'')]"
  let ?roles = "[''calyptia-core-pod-role'', ''view'']"
  let ?used = "sampleCluster ?deps ?roles"
  have free: "residueFree (pipelinesList ?clean = None) [(''default'', ''web'')] [''view'']
      [''cluster-admin''] [(''default'', ''default'')]"
    by (simp add: residueFree_def sampleCluster_def operatorDeploymentName_def
        wellKnownClusterRoles_def wellKnownClusterRoleBindings_def)
  have a: "IsOperatorInstalled ?clean = Return (False, None)"
    using C3_IsOperatorInstalled_residue
      [of ?clean "[(''default'', ''web'')]" "[''view'']" "[''cluster-admin'']"
          "[(''default'', ''default'')]"] free
    by (simp add: sampleCluster_def)
  have notfree: "\<not> residueFree (pipelinesList ?used = None) ?deps ?roles
      [''cluster-admin''] [(''default'', ''default'')]"
    by (simp add: residueFree_def sampleCluster_def operatorDeploymentName_def)
  have "\<exists>errors. IsOperatorInstalled ?used = Return (True, Some (OperatorIncompleteError errors))
      \<and> errors \<noteq> []"
    using C3_IsOperatorInstalled_residue
      [of ?used ?deps ?roles "[''cluster-admin'']" "[(''default'', ''default'')]"] notfree
    by (auto simp: sampleCluster_def)
  moreover have "IsOperatorInstalled ?used = Return (True, Some (OperatorIncompleteError
           [''Operator pod: calyptia-core/calyptia-core-controller-manager'',
            ''ClusterRole: calyptia-core-pod-role'']))"
    by (simp add: IsOperatorInstalled_def sampleCluster_def operatorDeploymentName_def
        clusterRoleStep_def bindingStep_def Let_def)
  ultimately show ?thesis
    using a by (simp add: Join_def)
qed

section \<open>The operator's version\<close>

text \<open>
  Where the image of the manager's first container is a repository, a colon and a
  tag, \<open>CheckOperatorVersion\<close> returns the tag, and an error when the tag is empty.
\<close>

lemma CheckOperatorVersion_tagged:
  assumes "SearchManagerAcrossAllNamespaces api = Return (Inr manager)"
    and "templateContainers manager \<noteq> []"
    and "containerImage (templateContainers manager ! 0) = repo @ '':'' @ tag"
    and "CHR '':'' \<notin> set repo" and "CHR '':'' \<notin> set tag"
  shows "CheckOperatorVersion api =
     (if tag = [] then Return (Inl (Errorf
        (''could not parse version from manager image: '' @ repo @ '':'')))
      else Return (Inr tag))"
  using assms by (simp add: CheckOperatorVersion_def Split_def splitLoop_one_sep Let_def)

text \<open>
  C6. The claim wants an error for every image reference without a tag. An image
  reference without any colon has no tag, and on it the code does not return: the
  split has a single element and reading the element of index 1 panics.
\<close>

theorem C6_no_colon_panics:
  assumes "SearchManagerAcrossAllNamespaces api = Return (Inr manager)"
    and "templateContainers manager \<noteq> []"
    and "CHR '':'' \<notin> set (containerImage (templateContainers manager ! 0))"
  shows "CheckOperatorVersion api = Panic"
  using assms by (simp add: CheckOperatorVersion_def Split_no_sep Let_def)

theorem C6_no_colon_panics_witness:
  "CheckOperatorVersion
     (sampleApi [sampleDeployment ''calyptia-core'' ''calyptia-core-controller-manager''
        [sampleContainer ''manager'' ''ghcr.io/calyptia/core-operator'' []]]) = Panic"
proof -
  let ?d = "sampleDeployment ''calyptia-core'' ''calyptia-core-controller-manager''
        [sampleContainer ''manager'' ''ghcr.io/calyptia/core-operator'' []]"
  have "SearchManagerAcrossAllNamespaces (sampleApi [?d]) = Return (Inr ?d)"
    by (simp add: SearchManagerAcrossAllNamespaces_def sampleApi_def sampleDeployment_def
        IsNotFound_def)
  moreover have "templateContainers ?d \<noteq> []"
    by (simp add: sampleDeployment_def)
  moreover have "CHR '':'' \<notin> set (containerImage (templateContainers ?d ! 0))"
    by (simp add: sampleDeployment_def sampleContainer_def)
  ultimately show ?thesis
    by (rule C6_no_colon_panics)
qed

section \<open>The sync update\<close>

text \<open>
  What the loop of \<open>UpdateSyncDeploymentByLabel\<close> does to a container: nothing
  when its name holds neither substring; otherwise the image becomes the
  repository of its kind joined with the new tag, and the environment goes through
  \<open>updateEnvVars\<close>, which sets every \<open>NO_TLS_VERIFY\<close> to the new value when there
  is one.
\<close>

lemma updateEnvLoop_absent:
  "\<forall>e \<in> set env. envName e \<noteq> syncTLSVerifyEnvVar \<Longrightarrow>
   updateEnvLoop v env found = (env, found)"
  by (induction env arbitrary: found) auto

lemma updateEnvVars_absent:
  "\<forall>e \<in> set env. envName e \<noteq> syncTLSVerifyEnvVar \<Longrightarrow>
   updateEnvVars env v
     = env @ [\<lparr>envName = coreTLSVerifyEnvVar, envValue = v, envFieldPath = None\<rparr>]"
  by (simp add: updateEnvVars_def updateEnvLoop_absent)

lemma updateEnvLoop_map:
  "fst (updateEnvLoop v env found)
     = map (\<lambda>e. if envName e = syncTLSVerifyEnvVar then e\<lparr>envValue := v\<rparr> else e) env"
  by (induction env arbitrary: found) (simp_all add: split_beta)

lemma updateEnvLoop_found:
  "snd (updateEnvLoop v env found) \<longleftrightarrow> found \<or> (\<exists>e \<in> set env. envName e = syncTLSVerifyEnvVar)"
  by (induction env arbitrary: found) (auto simp: split_beta)

lemma updateEnvVars_present:
  "\<exists>e \<in> set env. envName e = syncTLSVerifyEnvVar \<Longrightarrow>
   updateEnvVars env v
     = map (\<lambda>e. if envName e = syncTLSVerifyEnvVar then e\<lparr>envValue := v\<rparr> else e) env"
  using updateEnvLoop_map [of v env False] updateEnvLoop_found [of v env False]
  by (simp add: updateEnvVars_def split_beta)

lemma syncContainer_other:
  "\<not> Contains (containerName c) ''to-cloud'' \<Longrightarrow> \<not> Contains (containerName c) ''from-cloud''
   \<Longrightarrow> syncContainer defaults newImage v c = c"
  by (simp add: syncContainer_def)

lemma syncContainer_to_cloud:
  "Contains (containerName c) ''to-cloud'' \<Longrightarrow> \<not> Contains (containerName c) ''from-cloud''
   \<Longrightarrow> syncContainer defaults newImage v c
       = c\<lparr>containerImage := DefaultCoreOperatorToCloudDockerImage defaults @ '':'' @ newImage,
           containerEnv := updateEnvVars (containerEnv c) v\<rparr>"
  by (simp add: syncContainer_def)

lemma syncContainer_from_cloud:
  "Contains (containerName c) ''from-cloud''
   \<Longrightarrow> syncContainer defaults newImage v c
       = c\<lparr>containerImage := DefaultCoreOperatorFromCloudDockerImage defaults @ '':'' @ newImage,
           containerEnv := updateEnvVars (containerEnv c) v\<rparr>"
  by (simp add: syncContainer_def)

lemma syncContainers_map:
  "syncContainers defaults newImage v cs = map (syncContainer defaults newImage v) cs"
  by (induction cs) simp_all

text \<open>
  C8. The claim wants the TLS-verification variable upserted on the two sync
  containers. When the environment has no \<open>NO_TLS_VERIFY\<close>, the code appends a
  variable of another name, \<open>CORE_TLS_VERIFY\<close>, whatever the environment holds: a
  \<open>CORE_TLS_VERIFY\<close> that is there keeps its old value and gets a second entry,
  and \<open>NO_TLS_VERIFY\<close> is not inserted.
\<close>

theorem C8_tls_variable_not_upserted:
  assumes "Contains (containerName c) ''to-cloud'' \<or> Contains (containerName c) ''from-cloud''"
    and "\<forall>e \<in> set (containerEnv c). envName e \<noteq> syncTLSVerifyEnvVar"
  shows "containerEnv (syncContainer defaults newImage v c)
     = containerEnv c
       @ [\<lparr>envName = coreTLSVerifyEnvVar, envValue = v, envFieldPath = None\<rparr>]"
  using assms by (auto simp: syncContainer_def updateEnvVars_absent)

theorem C8_tls_variable_not_upserted_witness:
  "syncContainers sampleDefaults ''v2'' ''false''
     [sampleContainer ''core-sync-to-cloud'' ''ghcr.io/calyptia/core-operator/sync-to-cloud:v1''
        [\<lparr>envName = ''CORE_TLS_VERIFY'', envValue = ''true'', envFieldPath = None\<rparr>]]
   = [sampleContainer ''core-sync-to-cloud'' ''ghcr.io/calyptia/core-operator/sync-to-cloud:v2''
        [\<lparr>envName = ''CORE_TLS_VERIFY'', envValue = ''true'', envFieldPath = None\<rparr>,
         \<lparr>envName = ''CORE_TLS_VERIFY'', envValue = ''false'', envFieldPath = None\<rparr>]]"
proof -
  let ?c = "sampleContainer ''core-sync-to-cloud'' ''ghcr.io/calyptia/core-operator/sync-to-cloud:v1''
        [\<lparr>envName = ''CORE_TLS_VERIFY'', envValue = ''true'', envFieldPath = None\<rparr>]"
  have n: "Contains (containerName ?c) ''to-cloud'' \<or> Contains (containerName ?c) ''from-cloud''"
    by (simp add: sampleContainer_def)
  have e: "\<forall>e \<in> set (containerEnv ?c). envName e \<noteq> syncTLSVerifyEnvVar"
    by (simp add: sampleContainer_def syncTLSVerifyEnvVar_def)
  have "containerEnv (syncContainer sampleDefaults ''v2'' ''false'' ?c)
     = containerEnv ?c
       @ [\<lparr>envName = coreTLSVerifyEnvVar, envValue = ''false'', envFieldPath = None\<rparr>]"
    using n e by (rule C8_tls_variable_not_upserted)
  moreover have "syncContainer sampleDefaults ''v2'' ''false'' ?c
     = ?c\<lparr>containerImage := ''ghcr.io/calyptia/core-operator/sync-to-cloud:v2'',
          containerEnv := containerEnv (syncContainer sampleDefaults ''v2'' ''false'' ?c)\<rparr>"
    by (simp add: syncContainer_def sampleContainer_def sampleDefaults_def)
  ultimately show ?thesis
    by (simp add: sampleContainer_def coreTLSVerifyEnvVar_def)
qed

section \<open>Preparing the manifest without its namespace document\<close>

text \<open>
  C2, as the code has it. For a manifest that is the join of documents free of
  the separator, the namespace document first, and a file system that works,
  \<open>prepareInstallManifest\<close> without \<open>createNamespace\<close> writes the join of the
  documents after the first, each with every token \<open>namespace: calyptia-core\<close>
  replaced by \<open>namespace:\<close> and the target namespace (in double quotes when it
  reads as an integer), passed through \<open>addImage\<close>: with no version that is
  the whole result, with a version the image references are rewritten too, or the
  preparation fails when there is none.
\<close>

theorem C2_prepare_without_namespace_document:
  assumes "readManifest fs = Inr (Join (namespaceDoc # docs) documentSeparator)"
    and "\<forall>d \<in> set (namespaceDoc # docs). \<not> Contains d documentSeparator"
    and "mkdirTemp fs = Inr dir" and "createTemp fs = Inr temp" and "writeString fs = None"
  shows "prepareInstallManifest fs img ver ns False
       = (case addImage img ver (Join (map (\<lambda>d. injectNamespace d ns) docs) documentSeparator) of
            Inl err \<Rightarrow> Inl err
          | Inr withImage \<Rightarrow> Inr (temp, withImage))
     \<and> prepareInstallManifest fs img [] ns False
       = Inr (temp, Join (map (\<lambda>d. ReplaceAll d ''namespace: calyptia-core''
                                  (''namespace: '' @ quoteIfInteger ns)) docs) documentSeparator)"
proof -
  have s: "injectNamespace (solveNamespaceCreation False
        (Join (namespaceDoc # docs) documentSeparator) ns) ns
      = Join (map (\<lambda>d. injectNamespace d ns) docs) documentSeparator"
    using solveNamespaceCreation_strips [OF assms(2)] by (simp add: injectNamespace_Join)
  have g: "prepareInstallManifest fs img v ns False
       = (case addImage img v (Join (map (\<lambda>d. injectNamespace d ns) docs) documentSeparator) of
            Inl err \<Rightarrow> Inl err
          | Inr withImage \<Rightarrow> Inr (temp, withImage))" for v
    using assms(1,3,4,5)
    by (simp add: prepareInstallManifest_def Let_def s split: sum.splits)
  have i: "(\<lambda>d. injectNamespace d ns)
      = (\<lambda>d. ReplaceAll d ''namespace: calyptia-core'' (''namespace: '' @ quoteIfInteger ns))"
    by (simp add: injectNamespace_def fun_eq_iff)
  show ?thesis
    using g [of ver] g [of "[]"] by (simp add: addImage_no_version i)
qed

theorem C2_prepare_without_namespace_document_witness:
  "prepareInstallManifest
     (sampleFs (Join [namespaceDocument, rbacDocument, deploymentDocument] documentSeparator))
     ''ghcr.io/calyptia/core-operator'' [] ''prod'' False
   = Inr (''/tmp/calyptia-operator1/operator_1.yaml'',
       ''kind: ServiceAccount\<newline>  namespace: prod\<newline>---\<newline>''
       @ ''kind: Deployment\<newline>  namespace: prod\<newline>  image: ghcr.io/calyptia/core-operator:v1\<newline>'')"
proof -
  let ?fs = "sampleFs (Join [namespaceDocument, rbacDocument, deploymentDocument] documentSeparator)"
  have r: "readManifest ?fs
      = Inr (Join (namespaceDocument # [rbacDocument, deploymentDocument]) documentSeparator)"
    by (simp add: sampleFs_def)
  have n: "\<forall>d \<in> set (namespaceDocument # [rbacDocument, deploymentDocument]).
      \<not> Contains d documentSeparator"
    by (simp add: namespaceDocument_def rbacDocument_def deploymentDocument_def
        documentSeparator_def)
  have f: "mkdirTemp ?fs = Inr ''/tmp/calyptia-operator1''"
    "createTemp ?fs = Inr ''/tmp/calyptia-operator1/operator_1.yaml''"
    "writeString ?fs = None"
    by (simp_all add: sampleFs_def)
  have q: "quoteIfInteger ''prod'' = ''prod''"
    by (simp add: quoteIfInteger_def Atoi_def isDigit_def)
  from C2_prepare_without_namespace_document [OF r n f]
  have "prepareInstallManifest ?fs ''ghcr.io/calyptia/core-operator'' [] ''prod'' False
       = Inr (''/tmp/calyptia-operator1/operator_1.yaml'',
           Join (map (\<lambda>d. ReplaceAll d ''namespace: calyptia-core''
                               (''namespace: '' @ quoteIfInteger ''prod''))
                   [rbacDocument, deploymentDocument]) documentSeparator)"
    by blast
  then show ?thesis
    by (simp add: q Join_def ReplaceAll_def rbacDocument_def deploymentDocument_def
        documentSeparator_def)
qed

text \<open>
  The claim fails where a version is supplied: the deployment document then
  differs from the original in its image line too. And an integer namespace is
  written between double quotes.
\<close>

theorem C2_version_rewrites_image:
  "prepareInstallManifest
     (sampleFs (Join [namespaceDocument, deploymentDocument] documentSeparator))
     ''img'' ''v2'' ''prod'' False
   = Inr (''/tmp/calyptia-operator1/operator_1.yaml'',
       ''kind: Deployment\<newline>  namespace: prod\<newline>  image: img:v2\<newline>'')
   \<and> ReplaceAll deploymentDocument ''namespace: calyptia-core'' ''namespace: prod''
     = ''kind: Deployment\<newline>  namespace: prod\<newline>  image: ghcr.io/calyptia/core-operator:v1\<newline>''
   \<and> prepareInstallManifest
     (sampleFs (Join [namespaceDocument, rbacDocument] documentSeparator))
     ''img'' [] ''123'' False
   = Inr (''/tmp/calyptia-operator1/operator_1.yaml'',
       ''kind: ServiceAccount\<newline>  namespace: '' @ [CHR 0x22] @ ''123'' @ [CHR 0x22]
       @ ''\<newline>'')"
  by (simp add: prepareInstallManifest_def sampleFs_def solveNamespaceCreation_def
      injectNamespace_def addImage_def Join_def Split_def ReplaceAll_def
      namespaceDocument_def rbacDocument_def deploymentDocument_def documentSeparator_def
      quoteIfInteger_def Atoi_def isDigit_def matchImage_def stripPrefix_def isSpace_def
      notEol_def Let_def)

section \<open>The image pattern and addImage\<close>

text \<open>
  The matcher finds exactly the image references: on a text that starts with one
  it returns what follows the reference that runs to the end of its line, and it
  fails on every other text.
\<close>

lemma stripPrefix_append: "stripPrefix p (p @ s) = Some s"
  by (simp add: stripPrefix_def)

lemma stripPrefix_Some: "stripPrefix p s = Some r \<longleftrightarrow> s = p @ r"
  by (auto simp: stripPrefix_def prefix_def)

lemma dropWhile_all: "list_all P xs \<Longrightarrow> dropWhile P (xs @ ys) = dropWhile P ys"
  by (induction xs) auto

lemma takeWhile_all: "list_all P xs \<Longrightarrow> takeWhile P (xs @ ys) = xs @ takeWhile P ys"
  by (induction xs) auto

lemma matchImage_ref:
  assumes "isImageRef m"
  shows "matchImage (m @ r) = Some (dropWhile notEol r)"
proof -
  from assms obtain ws c tag where
    m: "m = ''image:'' @ ws @ ''ghcr'' @ [c] @ ''io/calyptia/core-operator:'' @ tag"
    and ws: "list_all isSpace ws" and c: "c \<noteq> CHR 0x0A" and tag: "list_all notEol tag"
    unfolding isImageRef_def by blast
  have 1: "stripPrefix ''image:'' (m @ r)
      = Some (ws @ ''ghcr'' @ [c] @ ''io/calyptia/core-operator:'' @ tag @ r)"
    unfolding m by (simp add: stripPrefix_def)
  have "dropWhile isSpace (ws @ ''ghcr'' @ [c] @ ''io/calyptia/core-operator:'' @ tag @ r)
      = dropWhile isSpace (''ghcr'' @ [c] @ ''io/calyptia/core-operator:'' @ tag @ r)"
    using ws by (rule dropWhile_all)
  also have "\<dots> = ''ghcr'' @ [c] @ ''io/calyptia/core-operator:'' @ tag @ r"
    by (simp add: isSpace_def)
  finally have 2: "stripPrefix ''ghcr''
      (dropWhile isSpace (ws @ ''ghcr'' @ [c] @ ''io/calyptia/core-operator:'' @ tag @ r))
      = Some (c # ''io/calyptia/core-operator:'' @ tag @ r)"
    by (simp add: stripPrefix_def)
  have 3: "stripPrefix ''io/calyptia/core-operator:'' (''io/calyptia/core-operator:'' @ tag @ r)
      = Some (tag @ r)"
    by (rule stripPrefix_append)
  have 4: "dropWhile notEol (tag @ r) = dropWhile notEol r"
    using tag by (rule dropWhile_all)
  show ?thesis
    unfolding matchImage_def 1 2 option.case list.case using c 3 4 by simp
qed

lemma matchImage_Some:
  assumes "matchImage s = Some r"
  shows "\<exists>m. s = m @ r \<and> isImageRef m \<and> (r = [] \<or> \<not> notEol (hd r))"
proof -
  obtain s1 where s1: "stripPrefix ''image:'' s = Some s1"
    using assms unfolding matchImage_def by (cases "stripPrefix ''image:'' s") simp_all
  obtain s2 where s2: "stripPrefix ''ghcr'' (dropWhile isSpace s1) = Some s2"
    using assms unfolding matchImage_def s1 option.case
    by (cases "stripPrefix ''ghcr'' (dropWhile isSpace s1)") simp_all
  from assms have a2: "(case s2 of [] \<Rightarrow> None
      | c # s3 \<Rightarrow> if c = CHR 0x0A then None
          else (case stripPrefix ''io/calyptia/core-operator:'' s3 of None \<Rightarrow> None
                | Some s4 \<Rightarrow> Some (dropWhile notEol s4))) = Some r"
    unfolding matchImage_def s1 s2 option.case .
  then obtain c s3 where s3: "s2 = c # s3"
    by (cases s2) simp_all
  from a2 have c: "c \<noteq> CHR 0x0A"
    unfolding s3 list.case by (cases "c = CHR 0x0A") simp_all
  with a2 have a3: "(case stripPrefix ''io/calyptia/core-operator:'' s3 of None \<Rightarrow> None
                | Some s4 \<Rightarrow> Some (dropWhile notEol s4)) = Some r"
    unfolding s3 list.case by simp
  then obtain s4 where s4: "stripPrefix ''io/calyptia/core-operator:'' s3 = Some s4"
    by (cases "stripPrefix ''io/calyptia/core-operator:'' s3") simp_all
  with a3 have r: "r = dropWhile notEol s4" by simp
  let ?ws = "takeWhile isSpace s1"
  let ?tag = "takeWhile notEol s4"
  let ?m = "''image:'' @ ?ws @ ''ghcr'' @ [c] @ ''io/calyptia/core-operator:'' @ ?tag"
  have e1: "s = ''image:'' @ s1" using s1 by (simp only: stripPrefix_Some)
  have e2: "dropWhile isSpace s1 = ''ghcr'' @ s2" using s2 by (simp only: stripPrefix_Some)
  have e3: "s3 = ''io/calyptia/core-operator:'' @ s4" using s4 by (simp only: stripPrefix_Some)
  have "takeWhile isSpace s1 @ dropWhile isSpace s1 = s1"
    by (rule takeWhile_dropWhile_id)
  then have f1: "s1 = ?ws @ ''ghcr'' @ [c] @ ''io/calyptia/core-operator:'' @ s4"
    unfolding e2 s3 e3 by simp
  have "takeWhile notEol s4 @ dropWhile notEol s4 = s4"
    by (rule takeWhile_dropWhile_id)
  then have f2: "?tag @ r = s4" unfolding r .
  have "?m @ r = ''image:'' @ ?ws @ ''ghcr'' @ [c] @ ''io/calyptia/core-operator:'' @ (?tag @ r)"
    by simp
  also have "\<dots> = ''image:'' @ s1"
    unfolding f2 using f1 by simp
  finally have "s = ?m @ r" unfolding e1 by simp
  moreover have "isImageRef ?m"
    unfolding isImageRef_def
  proof (rule exI [of _ ?ws], rule exI [of _ c], rule exI [of _ ?tag], intro conjI)
    show "list_all isSpace ?ws"
      unfolding list_all_iff using set_takeWhileD by fast
    show "list_all notEol ?tag"
      unfolding list_all_iff using set_takeWhileD by fast
  qed (simp_all add: c)
  moreover have "r = [] \<or> \<not> notEol (hd r)"
    unfolding r using hd_dropWhile [of notEol s4] by blast
  ultimately show ?thesis by blast
qed

lemma matchImage_None_iff: "matchImage s = None \<longleftrightarrow> \<not> startsImageRef s"
proof
  assume n: "matchImage s = None"
  show "\<not> startsImageRef s"
  proof
    assume "startsImageRef s"
    then obtain m r where "s = m @ r" "isImageRef m" unfolding startsImageRef_def by blast
    then have "matchImage s = Some (dropWhile notEol r)" by (simp add: matchImage_ref)
    with n show False by simp
  qed
next
  assume n: "\<not> startsImageRef s"
  show "matchImage s = None"
  proof (cases "matchImage s")
    case None
    then show ?thesis .
  next
    case (Some r)
    then obtain m where "s = m @ r" "isImageRef m" using matchImage_Some by blast
    with n show ?thesis unfolding startsImageRef_def by blast
  qed
qed


lemma isImageRef_not_Nil: "isImageRef m \<Longrightarrow> m \<noteq> []"
  unfolding isImageRef_def by auto

lemma startsImageRef_Nil: "\<not> startsImageRef []"
  by (auto simp: startsImageRef_def dest: isImageRef_not_Nil)

lemma occursImageRef_Nil: "\<not> occursImageRef []"
  by (simp add: occursImageRef_def startsImageRef_Nil)

lemma occursImageRef_Cons:
  "occursImageRef (c # cs) \<longleftrightarrow> startsImageRef (c # cs) \<or> occursImageRef cs"
proof
  assume "occursImageRef (c # cs)"
  then obtain pre rest where p: "c # cs = pre @ rest" "startsImageRef rest"
    unfolding occursImageRef_def by blast
  show "startsImageRef (c # cs) \<or> occursImageRef cs"
  proof (cases pre)
    case Nil
    with p show ?thesis by simp
  next
    case (Cons x xs)
    with p have "cs = xs @ rest" by simp
    with p(2) show ?thesis unfolding occursImageRef_def by blast
  qed
next
  assume "startsImageRef (c # cs) \<or> occursImageRef cs"
  then show "occursImageRef (c # cs)"
  proof
    assume "startsImageRef (c # cs)"
    then have "c # cs = [] @ (c # cs) \<and> startsImageRef (c # cs)" by simp
    then show ?thesis unfolding occursImageRef_def by blast
  next
    assume "occursImageRef cs"
    then obtain pre rest where "cs = pre @ rest" "startsImageRef rest"
      unfolding occursImageRef_def by blast
    then have "c # cs = (c # pre) @ rest \<and> startsImageRef rest" by simp
    then show ?thesis unfolding occursImageRef_def by blast
  qed
qed

lemma FindString_empty_iff: "FindString s = [] \<longleftrightarrow> \<not> occursImageRef s"
proof (induction s)
  case Nil
  then show ?case by (simp add: occursImageRef_Nil)
next
  case (Cons c cs)
  show ?case
  proof (cases "matchImage (c # cs)")
    case None
    then have "\<not> startsImageRef (c # cs)" by (simp only: matchImage_None_iff simp_thms)
    then have "occursImageRef (c # cs) \<longleftrightarrow> occursImageRef cs"
      unfolding occursImageRef_Cons by simp
    moreover from None have "FindString (c # cs) = FindString cs" by simp
    ultimately show ?thesis using Cons by simp
  next
    case (Some r)
    then have "length r < length (c # cs)" by (rule length_matchImage)
    then have "take (length (c # cs) - length r) (c # cs) \<noteq> []" by simp
    moreover from Some have "startsImageRef (c # cs)"
      using matchImage_None_iff [of "c # cs"] by simp
    ultimately show ?thesis using Some by (simp add: occursImageRef_Cons)
  qed
qed

lemma expand_no_dollar: "CHR ''$'' \<notin> set t \<Longrightarrow> expand t m = t"
  by (induction t) auto

text \<open>
  Inside the head of an image reference the text \<open>image:\<close> stands at the start
  only. So whether a reference starts before an \<open>image:\<close> does not depend on what
  follows that \<open>image:\<close>.
\<close>

lemma startsImageRef_head: "startsImageRef s \<longleftrightarrow> (\<exists>h. referenceHead h \<and> prefix h s)"
proof
  assume "startsImageRef s"
  then obtain m r where s: "s = m @ r" and "isImageRef m"
    unfolding startsImageRef_def by blast
  then obtain ws c tag where
    m: "m = ''image:'' @ ws @ ''ghcr'' @ [c] @ ''io/calyptia/core-operator:'' @ tag"
    and w: "list_all isSpace ws" "c \<noteq> CHR 0x0A"
    unfolding isImageRef_def by blast
  let ?h = "''image:'' @ ws @ ''ghcr'' @ [c] @ ''io/calyptia/core-operator:''"
  have "referenceHead ?h" unfolding referenceHead_def using w by blast
  moreover have "s = ?h @ (tag @ r)" unfolding s m by simp
  then have "prefix ?h s" unfolding prefix_def by blast
  ultimately show "\<exists>h. referenceHead h \<and> prefix h s" by blast
next
  assume "\<exists>h. referenceHead h \<and> prefix h s"
  then obtain h r where h: "referenceHead h" and s: "s = h @ r"
    unfolding prefix_def by blast
  from h obtain ws c where
    "h = ''image:'' @ ws @ ''ghcr'' @ [c] @ ''io/calyptia/core-operator:'' @ []"
    "list_all isSpace ws" "c \<noteq> CHR 0x0A" "list_all notEol []"
    unfolding referenceHead_def by auto
  then have "isImageRef h" unfolding isImageRef_def by blast
  with s show "startsImageRef s" unfolding startsImageRef_def by blast
qed

lemma sublist_ma_skip:
  "CHR ''m'' \<notin> set xs \<Longrightarrow> sublist ''ma'' (xs @ ys) \<longleftrightarrow> sublist ''ma'' ys"
  by (induction xs) (auto simp: sublist_Cons_right)

lemma space_not_m: "list_all isSpace ws \<Longrightarrow> CHR ''m'' \<notin> set ws"
proof
  assume a: "list_all isSpace ws" and "CHR ''m'' \<in> set ws"
  then have "isSpace (CHR ''m'')" by (simp add: list_all_iff)
  then show False by (simp add: isSpace_def)
qed

lemma no_ma_behind_dot: "\<not> sublist ''ma'' (c # ''io/calyptia/core-operator:'')"
proof -
  have "\<not> Contains ''io/calyptia/core-operator:'' ''ma''" by simp
  then have "\<not> sublist ''ma'' ''io/calyptia/core-operator:''"
    by (simp only: Contains_iff_sublist simp_thms)
  moreover have "\<not> prefix ''ma'' (c # ''io/calyptia/core-operator:'')" by simp
  ultimately show ?thesis by (simp only: sublist_Cons_right simp_thms)
qed

lemma no_ma_behind_head:
  assumes "list_all isSpace ws"
  shows "\<not> sublist ''ma'' (''age:'' @ ws @ ''ghcr'' @ c # ''io/calyptia/core-operator:'')"
proof -
  have "CHR ''m'' \<notin> set (''age:'' @ ws @ ''ghcr'')"
    using space_not_m [OF assms] by simp
  then have "sublist ''ma'' ((''age:'' @ ws @ ''ghcr'') @ c # ''io/calyptia/core-operator:'')
      \<longleftrightarrow> sublist ''ma'' (c # ''io/calyptia/core-operator:'')"
    by (rule sublist_ma_skip)
  then have "\<not> sublist ''ma'' ((''age:'' @ ws @ ''ghcr'') @ c # ''io/calyptia/core-operator:'')"
    using no_ma_behind_dot [of c] by (simp only: simp_thms)
  then show ?thesis by (simp only: append_assoc simp_thms)
qed

text \<open>the text image: does not start a second time inside the head of a reference\<close>
lemma head_one_image:
  assumes "referenceHead h" and "h = p @ ''image:'' @ q"
  shows "p = []"
proof (rule ccontr)
  assume pne: "p \<noteq> []"
  from assms(1) obtain ws c where
    h: "h = ''image:'' @ ws @ ''ghcr'' @ [c] @ ''io/calyptia/core-operator:''"
    and ws: "list_all isSpace ws"
    unfolding referenceHead_def by blast
  define z where "z = ''age:'' @ ws @ ''ghcr'' @ c # ''io/calyptia/core-operator:''"
  define rest where "rest = ''image:'' @ q"
  have hz: "h = CHR ''i'' # CHR ''m'' # z" unfolding h z_def by simp
  have hp: "h = p @ rest" unfolding rest_def by (rule assms(2))
  have r0: "rest \<noteq> CHR ''m'' # z" unfolding rest_def by simp
  from pne obtain x p1 where p: "p = x # p1" by (cases p) auto
  from hz hp have t1: "p1 @ rest = CHR ''m'' # z" unfolding p by simp
  with r0 have "p1 \<noteq> []" by auto
  then obtain y p2 where "p1 = y # p2" by (cases p1) auto
  with t1 have "z = p2 @ rest" by simp
  then have "z = (p2 @ ''i'') @ ''ma'' @ (''ge:'' @ q)" unfolding rest_def by simp
  then have "sublist ''ma'' z" unfolding sublist_def by blast
  with no_ma_behind_head [OF ws, of c] show False unfolding z_def by blast
qed

lemma startsImageRef_switch:
  assumes "p \<noteq> []" and "startsImageRef (p @ ''image:'' @ b)"
  shows "startsImageRef (p @ ''image:'' @ a)"
proof -
  from assms(2) obtain h where h: "referenceHead h" and ph: "prefix h (p @ ''image:'' @ b)"
    unfolding startsImageRef_head by blast
  from ph have "prefix h ((p @ ''image:'') @ b)" by (simp only: append_assoc)
  then consider "prefix h (p @ ''image:'')" | q where "h = (p @ ''image:'') @ q"
    unfolding prefix_append by blast
  then show ?thesis
  proof cases
    case 1
    then have "prefix h ((p @ ''image:'') @ a)" by (rule prefix_prefix)
    then have "prefix h (p @ ''image:'' @ a)" by (simp only: append_assoc)
    with h have "\<exists>h. referenceHead h \<and> prefix h (p @ ''image:'' @ a)" by blast
    then show ?thesis by (simp only: startsImageRef_head)
  next
    case 2
    then have "h = p @ ''image:'' @ q" by (simp only: append_assoc)
    with h have "p = []" by (rule head_one_image)
    with assms(1) show ?thesis by simp
  qed
qed

lemma rewritten_agree:
  assumes "rewritten new s out" and "prefix ''image:'' new"
  shows "out = s \<or> (\<exists>p a b. s = p @ ''image:'' @ a \<and> out = p @ ''image:'' @ b)"
  using assms(1)
proof (induction rule: rewritten.induct)
  case rewritten_Nil
  then show ?case by simp
next
  case (rewritten_keep c cs out)
  from rewritten_keep.IH show ?case
  proof
    assume "out = cs"
    then show ?thesis by simp
  next
    assume "\<exists>p a b. cs = p @ ''image:'' @ a \<and> out = p @ ''image:'' @ b"
    then obtain p a b where "cs = p @ ''image:'' @ a" "out = p @ ''image:'' @ b" by blast
    then have "c # cs = (c # p) @ ''image:'' @ a \<and> c # out = (c # p) @ ''image:'' @ b"
      by simp
    then show ?thesis by blast
  qed
next
  case (rewritten_replace m r out)
  from rewritten_replace(1) obtain a where "m = ''image:'' @ a"
    unfolding isImageRef_def by blast
  moreover from assms(2) obtain b where "new = ''image:'' @ b"
    unfolding prefix_def by blast
  ultimately have "m @ r = [] @ ''image:'' @ (a @ r) \<and> new @ out = [] @ ''image:'' @ (b @ out)"
    by simp
  then show ?case by blast
qed

lemma ReplaceAllString_rewritten:
  "CHR ''$'' \<notin> set new \<Longrightarrow> prefix ''image:'' new
   \<Longrightarrow> rewritten new s (ReplaceAllString s new)"
proof (induction s new rule: ReplaceAllString.induct)
  case (1 repl)
  then show ?case by (simp add: rewritten_Nil)
next
  case (2 c cs repl)
  show ?case
  proof (cases "matchImage (c # cs)")
    case None
    then have n: "\<not> startsImageRef (c # cs)" by (simp only: matchImage_None_iff simp_thms)
    have r: "rewritten repl cs (ReplaceAllString cs repl)"
      using 2(1) [OF None] 2(3,4) .
    have "\<not> startsImageRef (c # ReplaceAllString cs repl)"
    proof
      assume st: "startsImageRef (c # ReplaceAllString cs repl)"
      from rewritten_agree [OF r 2(4)] show False
      proof
        assume "ReplaceAllString cs repl = cs"
        with st n show False by simp
      next
        assume "\<exists>p a b. cs = p @ ''image:'' @ a \<and> ReplaceAllString cs repl = p @ ''image:'' @ b"
        then obtain p a b where
          cs: "cs = p @ ''image:'' @ a" and out: "ReplaceAllString cs repl = p @ ''image:'' @ b"
          by blast
        from st have "startsImageRef ((c # p) @ ''image:'' @ b)"
          unfolding out by simp
        then have "startsImageRef ((c # p) @ ''image:'' @ a)"
          by (rule startsImageRef_switch [rotated]) simp
        with n show False unfolding cs by simp
      qed
    qed
    with n r have "rewritten repl (c # cs) (c # ReplaceAllString cs repl)"
      by (rule rewritten_keep)
    with None show ?thesis by simp
  next
    case (Some r)
    then obtain m where m: "c # cs = m @ r" "isImageRef m" "r = [] \<or> \<not> notEol (hd r)"
      using matchImage_Some by blast
    have t: "take (length (c # cs) - length r) (c # cs) = m"
      unfolding m(1) by simp
    have "rewritten repl r (ReplaceAllString r repl)"
      using 2(2) [OF Some] 2(3,4) .
    with m(2,3) have "rewritten repl (m @ r) (repl @ ReplaceAllString r repl)"
      by (rule rewritten_replace)
    then have "rewritten repl (c # cs) (repl @ ReplaceAllString r repl)"
      unfolding m(1) .
    moreover have "ReplaceAllString (c # cs) repl = repl @ ReplaceAllString r repl"
      using Some t 2(3) by (simp add: expand_no_dollar)
    ultimately show ?thesis by simp
  qed
qed

lemma rewritten_sublist:
  "rewritten new s out \<Longrightarrow> occursImageRef s \<Longrightarrow> sublist new out"
proof (induction rule: rewritten.induct)
  case rewritten_Nil
  then show ?case by (simp add: occursImageRef_Nil)
next
  case (rewritten_keep c cs out)
  then have "occursImageRef cs" by (simp add: occursImageRef_Cons)
  with rewritten_keep have "sublist new out" by simp
  then show ?case by (simp add: sublist_Cons_right)
next
  case (rewritten_replace m r out)
  show ?case by simp
qed

lemma prepareInstallManifest_addImage_error:
  assumes "readManifest fs = Inr fullFile"
    and "addImage img ver (injectNamespace (solveNamespaceCreation create fullFile ns) ns) = Inl err"
  shows "prepareInstallManifest fs img ver ns create = Inl err"
  using assms by (simp add: prepareInstallManifest_def Let_def)

text \<open>
  C1, as the code has it. For a non-empty version, and an image and a version
  without a dollar sign (which the replacement template would expand):
  when an image reference occurs in the manifest text, \<open>addImage\<close> returns the
  text with its image references rewritten to exactly \<open>image: <image>:<version>\<close>,
  everything else unchanged, so the result holds that reference, and every image
  reference that the result holds starts in a replacement, none in the text kept
  from the manifest; when none occurs, it returns the error.
\<close>

theorem C1_addImage_rewrites_references:
  assumes "coreInstanceVersion \<noteq> []"
    and "CHR ''$'' \<notin> set coreDockerImage" and "CHR ''$'' \<notin> set coreInstanceVersion"
  shows "if occursImageRef file
         then (\<exists>out. addImage coreDockerImage coreInstanceVersion file = Inr out
                 \<and> rewritten (''image: '' @ coreDockerImage @ '':'' @ coreInstanceVersion) file out
                 \<and> Contains out (''image: '' @ coreDockerImage @ '':'' @ coreInstanceVersion))
         else addImage coreDockerImage coreInstanceVersion file
                = Inl (Errorf ''could not find image in manifest'')"
proof (cases "occursImageRef file")
  case False
  then have "FindString file = []" by (simp only: FindString_empty_iff simp_thms)
  with False assms(1) show ?thesis by (simp add: addImage_def)
next
  case True
  let ?new = "''image: '' @ coreDockerImage @ '':'' @ coreInstanceVersion"
  from True have "FindString file \<noteq> []" by (simp only: FindString_empty_iff simp_thms)
  then have a: "addImage coreDockerImage coreInstanceVersion file
      = Inr (ReplaceAllString file ?new)"
    using assms(1) by (simp add: addImage_def)
  have "CHR ''$'' \<notin> set ?new" using assms(2,3) by simp
  moreover have "prefix ''image:'' ?new" by simp
  ultimately have r: "rewritten ?new file (ReplaceAllString file ?new)"
    by (rule ReplaceAllString_rewritten)
  then have "sublist ?new (ReplaceAllString file ?new)"
    using True by (rule rewritten_sublist)
  then have "Contains (ReplaceAllString file ?new) ?new"
    by (simp only: Contains_iff_sublist)
  with a r True show ?thesis by simp
qed

theorem C1_addImage_rewrites_references_witness:
  "addImage ''ghcr.io/calyptia/core-operator'' ''v2'' deploymentDocument
     = Inr ''kind: Deployment\<newline>  namespace: calyptia-core\<newline>  image: ghcr.io/calyptia/core-operator:v2\<newline>''
   \<and> Contains ''kind: Deployment\<newline>  namespace: calyptia-core\<newline>  image: ghcr.io/calyptia/core-operator:v2\<newline>''
         ''image: ghcr.io/calyptia/core-operator:v2''
   \<and> addImage ''ghcr.io/calyptia/core-operator'' ''v2'' rbacDocument
     = Inl (Errorf ''could not find image in manifest'')"
proof -
  have v: "''v2'' \<noteq> []" "CHR ''$'' \<notin> set ''ghcr.io/calyptia/core-operator''"
    "CHR ''$'' \<notin> set ''v2''"
    by simp_all
  have "FindString deploymentDocument \<noteq> []"
    by (simp add: deploymentDocument_def matchImage_def stripPrefix_def isSpace_def notEol_def)
  then have o: "occursImageRef deploymentDocument"
    by (simp add: FindString_empty_iff)
  have "FindString rbacDocument = []"
    by (simp add: rbacDocument_def matchImage_def stripPrefix_def)
  then have n: "\<not> occursImageRef rbacDocument"
    by (simp add: FindString_empty_iff)
  have e: "addImage ''ghcr.io/calyptia/core-operator'' ''v2'' deploymentDocument
     = Inr ''kind: Deployment\<newline>  namespace: calyptia-core\<newline>  image: ghcr.io/calyptia/core-operator:v2\<newline>''"
    by (simp add: addImage_def deploymentDocument_def matchImage_def stripPrefix_def
        isSpace_def notEol_def)
  from C1_addImage_rewrites_references [OF v, of deploymentDocument] o
  have "\<exists>out. addImage ''ghcr.io/calyptia/core-operator'' ''v2'' deploymentDocument = Inr out
      \<and> Contains out (''image: '' @ ''ghcr.io/calyptia/core-operator'' @ '':'' @ ''v2'')"
    by auto
  with e have c: "Contains ''kind: Deployment\<newline>  namespace: calyptia-core\<newline>  image: ghcr.io/calyptia/core-operator:v2\<newline>''
         ''image: ghcr.io/calyptia/core-operator:v2''"
    by auto
  from C1_addImage_rewrites_references [OF v, of rbacDocument] n
  have "addImage ''ghcr.io/calyptia/core-operator'' ''v2'' rbacDocument
     = Inl (Errorf ''could not find image in manifest'')"
    by simp
  with e c show ?thesis by simp
qed

text \<open>
  The claim fails in two ways. The image may be the repository of the placeholder
  itself: the result then still holds an image reference of the pattern, and with
  the tag of the manifest it is the original text. And a dollar sign in the
  version is read as a reference of the template: \<open>$0\<close> stands for the text
  matched, so the result is not \<open>image: <image>:<version>\<close> and holds the original
  reference.
\<close>

theorem C1_placeholder_remains:
  "addImage ''ghcr.io/calyptia/core-operator'' ''v1'' ''image: ghcr.io/calyptia/core-operator:v1''
     = Inr ''image: ghcr.io/calyptia/core-operator:v1''
   \<and> addImage ''ghcr.io/calyptia/core-operator'' ''v2'' ''image: ghcr.io/calyptia/core-operator:v1''
     = Inr ''image: ghcr.io/calyptia/core-operator:v2''
   \<and> FindString ''image: ghcr.io/calyptia/core-operator:v2''
     = ''image: ghcr.io/calyptia/core-operator:v2''
   \<and> addImage ''img'' ''$0'' ''image: ghcr.io/calyptia/core-operator:v1''
     = Inr ''image: img:image: ghcr.io/calyptia/core-operator:v1''"
  by (simp add: addImage_def matchImage_def stripPrefix_def isSpace_def notEol_def
      extractRef_def isNameChar_def isLetter_def isDigit_def Let_def)

end
